theory Spec2Isabelle
  imports Main "HOL-Library.Char_ord"
begin

text \<open>
  A shallow embedding of the Go programs of the repository, and the properties of the
  specification proved about them. The programs are
  \<^item> the processor (\<open>main.go\<close>): \<open>handleProcess\<close>, \<open>processExcelBlob\<close>,
    \<open>processExcelFile\<close> with \<open>findURLColumn\<close>, \<open>processBlobTier\<close>,
    \<open>uploadToOutputContainer\<close>, \<open>extractFilenameFromURL\<close>;
  \<^item> a second processor in the same file, whose \<open>processExcelFile\<close> looks for the
    header \<open>url\<close> (the names of its functions carry the suffix \<open>_urlHeader\<close> here);
  \<^item> a first processor whose \<open>processExcelBlob\<close> scans every cell, and the
    command-line program \<open>main\<close>, which does the same on a local file;
  \<^item> the uploader (\<open>upload/main.go\<close>): \<open>handleUpload\<close> and
    \<open>handleProcessedNotification\<close>.
  The definitions come first, in the order of the sections below; the theorems follow.
\<close>

section \<open>Strings\<close>

text \<open>
  A Go \<open>string\<close> is a sequence of bytes; it is modelled as \<^typ>\<open>string\<close> (a list of
  8-bit \<^typ>\<open>char\<close>). Text outside ASCII is given by its UTF-8 bytes. The functions of
  the Go packages \<open>strings\<close>, \<open>path/filepath\<close> and \<open>net/url\<close> that the
  programs call are transcribed from the Go standard library.
\<close>

type_synonym error = string

text \<open>
  \<open>strings.Split(s, sep)\<close> for a separator of one byte: the pieces between the
  separators, one more than there are separators (so never an empty list).
\<close>

fun Split :: "string \<Rightarrow> char \<Rightarrow> string list" where
  "Split [] sep = [[]]"
| "Split (c # cs) sep =
     (if c = sep then [] # Split cs sep
      else (case Split cs sep of [] \<Rightarrow> [[c]] | seg # segs \<Rightarrow> (c # seg) # segs))"

text \<open>\<open>strings.Join(elems, sep)\<close>.\<close>

fun Join :: "string list \<Rightarrow> string \<Rightarrow> string" where
  "Join [] sep = []"
| "Join [s] sep = s"
| "Join (s # t # ss) sep = s @ sep @ Join (t # ss) sep"

subsection \<open>Percent-encoding of a path segment (\<open>net/url\<close>)\<close>

text \<open>The byte comparison \<open>lo <= c && c <= hi\<close>.\<close>

definition within :: "char \<Rightarrow> char \<Rightarrow> char \<Rightarrow> bool" where
  "within lo hi c = (lo \<le> c \<and> c \<le> hi)"

definition upperhex :: string where
  "upperhex = ''0123456789ABCDEF''"



text \<open>
  \<open>shouldEscape(c, encodePathSegment)\<close>: letters, digits and \<open>- _ . ~\<close> are kept; of
  the reserved characters \<open>$ & + , / : ; = ? @\<close> a path segment escapes \<open>/ ; , ?\<close>;
  every other byte is escaped.
\<close>

definition shouldEscape :: "char \<Rightarrow> bool" where
  "shouldEscape c =
     (if within CHR ''a'' CHR ''z'' c \<or> within CHR ''A'' CHR ''Z'' c
         \<or> within CHR ''0'' CHR ''9'' c then False
      else if c \<in> set ''-_.~'' then False
      else if c \<in> set ''$&+,/:;=?@''
        then c = CHR ''/'' \<or> c = CHR '';'' \<or> c = CHR '','' \<or> c = CHR ''?''
      else True)"

text \<open>
  \<open>url.PathEscape(s)\<close>: an escaped byte \<open>c\<close> becomes \<open>%\<close>, \<open>upperhex[c>>4]\<close>,
  \<open>upperhex[c&15]\<close>.
\<close>

fun PathEscape :: "string \<Rightarrow> string" where
  "PathEscape [] = []"
| "PathEscape (c # cs) =
     (if shouldEscape c
      then CHR ''%'' # upperhex ! (of_char c div 16) # upperhex ! (of_char c mod 16)
             # PathEscape cs
      else c # PathEscape cs)"


text \<open>
  The path that \<open>processBlobTier\<close> (and the first \<open>processExcelBlob\<close>) hands to the
  store client:
  \<^verbatim>\<open>
  pathSegments := strings.Split(blobPath, "/")
  for i, segment := range pathSegments {
      pathSegments[i] = url.PathEscape(segment)
  }
  encodedBlobPath := strings.Join(pathSegments, "/")
  \<close>
\<close>

definition encodedBlobPath :: "string \<Rightarrow> string" where
  "encodedBlobPath blobPath = Join (map PathEscape (Split blobPath CHR ''/'')) ''/''"

subsection \<open>UTF-8 and the case of letters (\<open>unicode/utf8\<close>, \<open>unicode\<close>)\<close>

text \<open>
  A Go string is a sequence of bytes; \<open>strings.TrimSpace\<close> and \<open>strings.ToLower\<close> read
  it as UTF-8, one rune (a code point, here a natural number) at a time.
  \<open>utf8.DecodeRuneInString\<close> gives the first rune of a string and its width in bytes; a
  byte that starts no well-formed encoding decodes to \<open>RuneError\<close> (U+FFFD) with width 1.
  The second byte of an encoding is confined to a range that depends on the first byte
  (no over-long encodings, no surrogates, nothing beyond U+10FFFF), the third and the
  fourth to \<open>0x80\<close>..\<open>0xBF\<close>. The masks and shifts of the code are written with \<open>mod\<close>
  and multiplication: \<open>s0 & 0x1F\<close> is \<open>s0 mod 32\<close>, \<open>x << 6\<close> is \<open>x * 64\<close>, and \<open>|\<close> joins
  disjoint bits, so it is \<open>+\<close>.
\<close>

definition RuneError :: nat where
  "RuneError = 0xFFFD"

definition byteAt :: "string \<Rightarrow> nat \<Rightarrow> nat" where
  "byteAt s i = of_char (s ! i)"

definition continuation :: "nat \<Rightarrow> bool" where
  "continuation b = (0x80 \<le> b \<and> b \<le> 0xBF)"

definition DecodeRuneInString :: "string \<Rightarrow> nat \<times> nat" where
  "DecodeRuneInString s =
     (if length s < 1 then (RuneError, 0)
      else let s0 = byteAt s 0 in
        if s0 < 0x80 then (s0, 1)
        else if s0 < 0xC2 \<or> 0xF4 < s0 then (RuneError, 1)
        else
          let sz = (if s0 < 0xE0 then 2 else if s0 < 0xF0 then 3 else 4 :: nat);
              lo = (if s0 = 0xE0 then 0xA0 else if s0 = 0xF0 then 0x90 else 0x80);
              hi = (if s0 = 0xED then 0x9F else if s0 = 0xF4 then 0x8F else 0xBF)
          in
            if length s < sz then (RuneError, 1)
            else if byteAt s 1 < lo \<or> hi < byteAt s 1 then (RuneError, 1)
            else if sz \<le> 2 then (s0 mod 32 * 64 + byteAt s 1 mod 64, 2)
            else if \<not> continuation (byteAt s 2) then (RuneError, 1)
            else if sz \<le> 3
              then (s0 mod 16 * 4096 + byteAt s 1 mod 64 * 64 + byteAt s 2 mod 64, 3)
            else if \<not> continuation (byteAt s 3) then (RuneError, 1)
            else (s0 mod 8 * 262144 + byteAt s 1 mod 64 * 4096 + byteAt s 2 mod 64 * 64
                    + byteAt s 3 mod 64, 4))"

text \<open>
  \<open>utf8.DecodeLastRuneInString\<close> gives the last rune of a string: it steps back from the
  last byte, over at most three bytes, to the nearest byte that can start an encoding
  (\<open>utf8.RuneStart\<close>: not of the form \<open>10xxxxxx\<close>), decodes from there and accepts the rune
  only if its encoding ends where the string ends:
  \<^verbatim>\<open>
  lim := end - UTFMax
  if lim < 0 { lim = 0 }
  for start--; start >= lim; start-- {
      if RuneStart(s[start]) { break }
  }
  if start < 0 { start = 0 }
  r, size = DecodeRuneInString(s[start:end])
  if start+size != end { return RuneError, 1 }
  return r, size
  \<close>
\<close>

definition RuneStart :: "nat \<Rightarrow> bool" where
  "RuneStart b = (\<not> continuation b)"

function backLoop :: "string \<Rightarrow> int \<Rightarrow> int \<Rightarrow> int" where
  "backLoop s lim start =
     (if start \<ge> lim
      then if RuneStart (byteAt s (nat start)) then start else backLoop s lim (start - 1)
      else start)"
  by pat_completeness auto
termination
  by (relation "measure (\<lambda>(s, lim, start). nat (start - lim + 1))") auto

declare backLoop.simps [simp del]

definition DecodeLastRuneInString :: "string \<Rightarrow> nat \<times> nat" where
  "DecodeLastRuneInString s =
     (let stop = length s in
      if stop = 0 then (RuneError, 0)
      else if byteAt s (stop - 1) < 0x80 then (byteAt s (stop - 1), 1)
      else
        let lim = max (int stop - 4) 0;
            start = max (backLoop s lim (int stop - 2)) 0;
            (r, width) = DecodeRuneInString (drop (nat start) s)
        in if nat start + width \<noteq> stop then (RuneError, 1) else (r, width))"

text \<open>
  \<open>utf8.AppendRune\<close>, by which \<open>strings.Map\<close> writes a rune back: one to four bytes; a
  surrogate or a value beyond U+10FFFF is written as \<open>RuneError\<close>.
\<close>

definition AppendRune :: "nat \<Rightarrow> string" where
  "AppendRune r =
     (if r \<le> 0x7F then [char_of r]
      else if r \<le> 0x7FF then [char_of (0xC0 + r div 64), char_of (0x80 + r mod 64)]
      else if 0x10FFFF < r \<or> (0xD800 \<le> r \<and> r \<le> 0xDFFF) then [CHR 0xEF, CHR 0xBF, CHR 0xBD]
      else if r \<le> 0xFFFF
        then [char_of (0xE0 + r div 4096), char_of (0x80 + r div 64 mod 64),
              char_of (0x80 + r mod 64)]
      else [char_of (0xF0 + r div 262144), char_of (0x80 + r div 4096 mod 64),
            char_of (0x80 + r div 64 mod 64), char_of (0x80 + r mod 64)])"

text \<open>
  \<open>unicode.IsSpace\<close>: in Latin-1 the six ASCII white-space characters, U+0085 and
  U+00A0; beyond Latin-1 the runes of the property \<open>White_Space\<close>.
\<close>

definition IsSpace :: "nat \<Rightarrow> bool" where
  "IsSpace r =
     (if r \<le> 0xFF then r \<in> set [0x09, 0x0A, 0x0B, 0x0C, 0x0D, 0x20, 0x85, 0xA0]
      else r = 0x1680 \<or> (0x2000 \<le> r \<and> r \<le> 0x200A)
         \<or> r \<in> set [0x2028, 0x2029, 0x202F, 0x205F, 0x3000])"

text \<open>
  \<open>unicode.ToLower\<close> answers for ASCII at once and looks every other rune up in the case
  table of Unicode:
  \<^verbatim>\<open>
  if r <= MaxASCII {
      if 'A' <= r && r <= 'Z' { r += 'a' - 'A' }
      return r
  }
  return To(LowerCase, r)
  \<close>
  \<open>caseRanges\<close> holds the lower-case mapping of the Unicode character database beyond
  ASCII (version 14.0, field \<open>Simple_Lowercase_Mapping\<close>), which is what the table of the
  Go library encodes. An entry \<open>(lo, hi, stride, lower)\<close> stands for the runes \<open>lo\<close>,
  \<open>lo + stride\<close>, ... up to \<open>hi\<close>; the rune \<open>lo + d\<close> among them maps to \<open>lower + d\<close>. A rune
  that no entry covers is its own lower case. Two runes beyond ASCII map into ASCII:
  U+0130 to \<open>i\<close> and U+212A (the Kelvin sign) to \<open>k\<close>.
\<close>

definition caseRanges :: "(nat \<times> nat \<times> nat \<times> nat) list" where
  "caseRanges = [
    (0x00C0, 0x00D6, 1, 0x00E0), (0x00D8, 0x00DE, 1, 0x00F8), (0x0100, 0x012E, 2, 0x0101),
    (0x0130, 0x0130, 1, 0x0069), (0x0132, 0x0136, 2, 0x0133), (0x0139, 0x0147, 2, 0x013A),
    (0x014A, 0x0176, 2, 0x014B), (0x0178, 0x0178, 1, 0x00FF), (0x0179, 0x017D, 2, 0x017A),
    (0x0181, 0x0181, 1, 0x0253), (0x0182, 0x0184, 2, 0x0183), (0x0186, 0x0186, 1, 0x0254),
    (0x0187, 0x0187, 1, 0x0188), (0x0189, 0x018A, 1, 0x0256), (0x018B, 0x018B, 1, 0x018C),
    (0x018E, 0x018E, 1, 0x01DD), (0x018F, 0x018F, 1, 0x0259), (0x0190, 0x0190, 1, 0x025B),
    (0x0191, 0x0191, 1, 0x0192), (0x0193, 0x0193, 1, 0x0260), (0x0194, 0x0194, 1, 0x0263),
    (0x0196, 0x0196, 1, 0x0269), (0x0197, 0x0197, 1, 0x0268), (0x0198, 0x0198, 1, 0x0199),
    (0x019C, 0x019C, 1, 0x026F), (0x019D, 0x019D, 1, 0x0272), (0x019F, 0x019F, 1, 0x0275),
    (0x01A0, 0x01A4, 2, 0x01A1), (0x01A6, 0x01A6, 1, 0x0280), (0x01A7, 0x01A7, 1, 0x01A8),
    (0x01A9, 0x01A9, 1, 0x0283), (0x01AC, 0x01AC, 1, 0x01AD), (0x01AE, 0x01AE, 1, 0x0288),
    (0x01AF, 0x01AF, 1, 0x01B0), (0x01B1, 0x01B2, 1, 0x028A), (0x01B3, 0x01B5, 2, 0x01B4),
    (0x01B7, 0x01B7, 1, 0x0292), (0x01B8, 0x01B8, 1, 0x01B9), (0x01BC, 0x01BC, 1, 0x01BD),
    (0x01C4, 0x01C4, 1, 0x01C6), (0x01C5, 0x01C5, 1, 0x01C6), (0x01C7, 0x01C7, 1, 0x01C9),
    (0x01C8, 0x01C8, 1, 0x01C9), (0x01CA, 0x01CA, 1, 0x01CC), (0x01CB, 0x01DB, 2, 0x01CC),
    (0x01DE, 0x01EE, 2, 0x01DF), (0x01F1, 0x01F1, 1, 0x01F3), (0x01F2, 0x01F4, 2, 0x01F3),
    (0x01F6, 0x01F6, 1, 0x0195), (0x01F7, 0x01F7, 1, 0x01BF), (0x01F8, 0x021E, 2, 0x01F9),
    (0x0220, 0x0220, 1, 0x019E), (0x0222, 0x0232, 2, 0x0223), (0x023A, 0x023A, 1, 0x2C65),
    (0x023B, 0x023B, 1, 0x023C), (0x023D, 0x023D, 1, 0x019A), (0x023E, 0x023E, 1, 0x2C66),
    (0x0241, 0x0241, 1, 0x0242), (0x0243, 0x0243, 1, 0x0180), (0x0244, 0x0244, 1, 0x0289),
    (0x0245, 0x0245, 1, 0x028C), (0x0246, 0x024E, 2, 0x0247), (0x0370, 0x0372, 2, 0x0371),
    (0x0376, 0x0376, 1, 0x0377), (0x037F, 0x037F, 1, 0x03F3), (0x0386, 0x0386, 1, 0x03AC),
    (0x0388, 0x038A, 1, 0x03AD), (0x038C, 0x038C, 1, 0x03CC), (0x038E, 0x038F, 1, 0x03CD),
    (0x0391, 0x03A1, 1, 0x03B1), (0x03A3, 0x03AB, 1, 0x03C3), (0x03CF, 0x03CF, 1, 0x03D7),
    (0x03D8, 0x03EE, 2, 0x03D9), (0x03F4, 0x03F4, 1, 0x03B8), (0x03F7, 0x03F7, 1, 0x03F8),
    (0x03F9, 0x03F9, 1, 0x03F2), (0x03FA, 0x03FA, 1, 0x03FB), (0x03FD, 0x03FF, 1, 0x037B),
    (0x0400, 0x040F, 1, 0x0450), (0x0410, 0x042F, 1, 0x0430), (0x0460, 0x0480, 2, 0x0461),
    (0x048A, 0x04BE, 2, 0x048B), (0x04C0, 0x04C0, 1, 0x04CF), (0x04C1, 0x04CD, 2, 0x04C2),
    (0x04D0, 0x052E, 2, 0x04D1), (0x0531, 0x0556, 1, 0x0561), (0x10A0, 0x10C5, 1, 0x2D00),
    (0x10C7, 0x10C7, 1, 0x2D27), (0x10CD, 0x10CD, 1, 0x2D2D), (0x13A0, 0x13EF, 1, 0xAB70),
    (0x13F0, 0x13F5, 1, 0x13F8), (0x1C90, 0x1CBA, 1, 0x10D0), (0x1CBD, 0x1CBF, 1, 0x10FD),
    (0x1E00, 0x1E94, 2, 0x1E01), (0x1E9E, 0x1E9E, 1, 0x00DF), (0x1EA0, 0x1EFE, 2, 0x1EA1),
    (0x1F08, 0x1F0F, 1, 0x1F00), (0x1F18, 0x1F1D, 1, 0x1F10), (0x1F28, 0x1F2F, 1, 0x1F20),
    (0x1F38, 0x1F3F, 1, 0x1F30), (0x1F48, 0x1F4D, 1, 0x1F40), (0x1F59, 0x1F5F, 2, 0x1F51),
    (0x1F68, 0x1F6F, 1, 0x1F60), (0x1F88, 0x1F8F, 1, 0x1F80), (0x1F98, 0x1F9F, 1, 0x1F90),
    (0x1FA8, 0x1FAF, 1, 0x1FA0), (0x1FB8, 0x1FB9, 1, 0x1FB0), (0x1FBA, 0x1FBB, 1, 0x1F70),
    (0x1FBC, 0x1FBC, 1, 0x1FB3), (0x1FC8, 0x1FCB, 1, 0x1F72), (0x1FCC, 0x1FCC, 1, 0x1FC3),
    (0x1FD8, 0x1FD9, 1, 0x1FD0), (0x1FDA, 0x1FDB, 1, 0x1F76), (0x1FE8, 0x1FE9, 1, 0x1FE0),
    (0x1FEA, 0x1FEB, 1, 0x1F7A), (0x1FEC, 0x1FEC, 1, 0x1FE5), (0x1FF8, 0x1FF9, 1, 0x1F78),
    (0x1FFA, 0x1FFB, 1, 0x1F7C), (0x1FFC, 0x1FFC, 1, 0x1FF3), (0x2126, 0x2126, 1, 0x03C9),
    (0x212A, 0x212A, 1, 0x006B), (0x212B, 0x212B, 1, 0x00E5), (0x2132, 0x2132, 1, 0x214E),
    (0x2160, 0x216F, 1, 0x2170), (0x2183, 0x2183, 1, 0x2184), (0x24B6, 0x24CF, 1, 0x24D0),
    (0x2C00, 0x2C2F, 1, 0x2C30), (0x2C60, 0x2C60, 1, 0x2C61), (0x2C62, 0x2C62, 1, 0x026B),
    (0x2C63, 0x2C63, 1, 0x1D7D), (0x2C64, 0x2C64, 1, 0x027D), (0x2C67, 0x2C6B, 2, 0x2C68),
    (0x2C6D, 0x2C6D, 1, 0x0251), (0x2C6E, 0x2C6E, 1, 0x0271), (0x2C6F, 0x2C6F, 1, 0x0250),
    (0x2C70, 0x2C70, 1, 0x0252), (0x2C72, 0x2C72, 1, 0x2C73), (0x2C75, 0x2C75, 1, 0x2C76),
    (0x2C7E, 0x2C7F, 1, 0x023F), (0x2C80, 0x2CE2, 2, 0x2C81), (0x2CEB, 0x2CED, 2, 0x2CEC),
    (0x2CF2, 0x2CF2, 1, 0x2CF3), (0xA640, 0xA66C, 2, 0xA641), (0xA680, 0xA69A, 2, 0xA681),
    (0xA722, 0xA72E, 2, 0xA723), (0xA732, 0xA76E, 2, 0xA733), (0xA779, 0xA77B, 2, 0xA77A),
    (0xA77D, 0xA77D, 1, 0x1D79), (0xA77E, 0xA786, 2, 0xA77F), (0xA78B, 0xA78B, 1, 0xA78C),
    (0xA78D, 0xA78D, 1, 0x0265), (0xA790, 0xA792, 2, 0xA791), (0xA796, 0xA7A8, 2, 0xA797),
    (0xA7AA, 0xA7AA, 1, 0x0266), (0xA7AB, 0xA7AB, 1, 0x025C), (0xA7AC, 0xA7AC, 1, 0x0261),
    (0xA7AD, 0xA7AD, 1, 0x026C), (0xA7AE, 0xA7AE, 1, 0x026A), (0xA7B0, 0xA7B0, 1, 0x029E),
    (0xA7B1, 0xA7B1, 1, 0x0287), (0xA7B2, 0xA7B2, 1, 0x029D), (0xA7B3, 0xA7B3, 1, 0xAB53),
    (0xA7B4, 0xA7C2, 2, 0xA7B5), (0xA7C4, 0xA7C4, 1, 0xA794), (0xA7C5, 0xA7C5, 1, 0x0282),
    (0xA7C6, 0xA7C6, 1, 0x1D8E), (0xA7C7, 0xA7C9, 2, 0xA7C8), (0xA7D0, 0xA7D0, 1, 0xA7D1),
    (0xA7D6, 0xA7D8, 2, 0xA7D7), (0xA7F5, 0xA7F5, 1, 0xA7F6), (0xFF21, 0xFF3A, 1, 0xFF41),
    (0x10400, 0x10427, 1, 0x10428), (0x104B0, 0x104D3, 1, 0x104D8),
    (0x10570, 0x1057A, 1, 0x10597), (0x1057C, 0x1058A, 1, 0x105A3),
    (0x1058C, 0x10592, 1, 0x105B3), (0x10594, 0x10595, 1, 0x105BB),
    (0x10C80, 0x10CB2, 1, 0x10CC0), (0x118A0, 0x118BF, 1, 0x118C0),
    (0x16E40, 0x16E5F, 1, 0x16E60), (0x1E900, 0x1E921, 1, 0x1E922)
   ]"

fun lowerInRanges :: "(nat \<times> nat \<times> nat \<times> nat) list \<Rightarrow> nat \<Rightarrow> nat" where
  "lowerInRanges [] r = r"
| "lowerInRanges ((lo, hi, stride, lower) # rest) r =
     (if lo \<le> r \<and> r \<le> hi \<and> (r - lo) mod stride = 0 then lower + (r - lo)
      else lowerInRanges rest r)"

definition unicodeToLower :: "nat \<Rightarrow> nat" where
  "unicodeToLower r =
     (if r \<le> 0x7F then (if 0x41 \<le> r \<and> r \<le> 0x5A then r + 0x20 else r)
      else lowerInRanges caseRanges r)"

subsection \<open>Trimming, case, prefixes and suffixes (\<open>strings\<close>, \<open>path/filepath\<close>)\<close>

text \<open>
  \<open>strings.TrimSpace\<close> removes the white-space runes at both ends. From the left it
  decodes rune after rune and stops at the first that is no white space (an ill-formed
  byte decodes to \<open>RuneError\<close>, which is none); from the right it does the same with
  \<open>DecodeLastRuneInString\<close>. (The code has a fast path for ASCII bytes and then calls
  \<open>TrimFunc\<close> or \<open>TrimRightFunc\<close> with \<open>unicode.IsSpace\<close>; the result is the same.)
\<close>

fun TrimLeftSpace :: "string \<Rightarrow> string" where
  "TrimLeftSpace [] = []"
| "TrimLeftSpace (c # cs) =
     (case DecodeRuneInString (c # cs) of
        (r, width) \<Rightarrow> if IsSpace r then TrimLeftSpace (drop (width - 1) cs) else c # cs)"

lemma DecodeRuneInString_width: "s \<noteq> [] \<Longrightarrow> 0 < snd (DecodeRuneInString s)"
  by (simp add: DecodeRuneInString_def Let_def)

lemma backLoop_le: "backLoop s lim start \<le> start"
proof (induction s lim start rule: backLoop.induct)
  case (1 s lim start)
  then show ?case by (subst backLoop.simps) force
qed

lemma DecodeLastRuneInString_width: "s \<noteq> [] \<Longrightarrow> 0 < snd (DecodeLastRuneInString s)"
proof -
  assume ne: "s \<noteq> []"
  define start where "start = nat (max (backLoop s (max (int (length s) - 4) 0) (int (length s) - 2)) 0)"
  have "start < length s"
    using backLoop_le [of s "max (int (length s) - 4) 0" "int (length s) - 2"] ne
    by (cases s) (auto simp: start_def)
  then have "drop start s \<noteq> []" by simp
  then have "0 < snd (DecodeRuneInString (drop start s))" by (rule DecodeRuneInString_width)
  with ne show ?thesis
    by (auto simp: DecodeLastRuneInString_def Let_def start_def split: prod.splits)
qed

function TrimRightSpace :: "string \<Rightarrow> string" where
  "TrimRightSpace s =
     (if s = [] then []
      else case DecodeLastRuneInString s of
        (r, width) \<Rightarrow> if IsSpace r then TrimRightSpace (take (length s - width) s) else s)"
  by pat_completeness auto
termination
  apply (relation "measure length")
   apply simp
  subgoal for s
    using DecodeLastRuneInString_width [of s] by (cases "DecodeLastRuneInString s") auto
  done

declare TrimRightSpace.simps [simp del]

definition TrimSpace :: "string \<Rightarrow> string" where
  "TrimSpace s = TrimRightSpace (TrimLeftSpace s)"

text \<open>
  \<open>strings.ToLower\<close> maps \<open>unicode.ToLower\<close> over the runes of the string and writes the
  results back as UTF-8; an ill-formed byte comes out as the three bytes of U+FFFD.
\<close>

fun ToLower :: "string \<Rightarrow> string" where
  "ToLower [] = []"
| "ToLower (c # cs) =
     (case DecodeRuneInString (c # cs) of
        (r, width) \<Rightarrow> AppendRune (unicodeToLower r) @ ToLower (drop (width - 1) cs))"

text \<open>
  The same on the letters \<open>A\<close> to \<open>Z\<close> alone, every other byte kept: comparing
  \<open>asciiLower s\<close> is comparing \<open>s\<close> without regard to the case of the ASCII letters.
\<close>

definition toLowerByte :: "char \<Rightarrow> char" where
  "toLowerByte c = (if within CHR ''A'' CHR ''Z'' c then char_of (of_char c + (32::nat)) else c)"

definition asciiLower :: "string \<Rightarrow> string" where
  "asciiLower s = map toLowerByte s"

definition HasPrefix :: "string \<Rightarrow> string \<Rightarrow> bool" where
  "HasPrefix s pre = (take (length pre) s = pre)"

definition HasSuffix :: "string \<Rightarrow> string \<Rightarrow> bool" where
  "HasSuffix s suffix =
     (length suffix \<le> length s \<and> drop (length s - length suffix) s = suffix)"

definition TrimSuffix :: "string \<Rightarrow> string \<Rightarrow> string" where
  "TrimSuffix s suffix = (if HasSuffix s suffix then take (length s - length suffix) s else s)"

fun Contains :: "string \<Rightarrow> string \<Rightarrow> bool" where
  "Contains [] substr = (substr = [])"
| "Contains (c # cs) substr = (HasPrefix (c # cs) substr \<or> Contains cs substr)"

text \<open>
  \<open>strings.ReplaceAll(s, " ", "%20")\<close>, the only replacement the programs make.
\<close>

fun ReplaceSpaces :: "string \<Rightarrow> string" where
  "ReplaceSpaces [] = []"
| "ReplaceSpaces (c # cs) =
     (if c = CHR '' '' then ''%20'' @ ReplaceSpaces cs else c # ReplaceSpaces cs)"

text \<open>
  \<open>filepath.Ext(path)\<close> walks back from the end of the path, stops at a separator and
  returns the suffix that starts at the first dot it meets:
  \<^verbatim>\<open>
  for i := len(path) - 1; i >= 0 && !os.IsPathSeparator(path[i]); i-- {
      if path[i] == '.' { return path[i:] }
  }
  return ""
  \<close>
  \<open>ExtLoop\<close> takes the path reversed and the bytes passed so far.
\<close>

fun ExtLoop :: "string \<Rightarrow> string \<Rightarrow> string" where
  "ExtLoop [] seen = []"
| "ExtLoop (c # front) seen =
     (if c = CHR ''/'' then []
      else if c = CHR ''.'' then c # seen
      else ExtLoop front (c # seen))"

definition Ext :: "string \<Rightarrow> string" where
  "Ext path = ExtLoop (rev path) []"

text \<open>
  \<open>filepath.Base(path)\<close>: the last element of the path, trailing separators dropped;
  \<open>.\<close> for the empty path and \<open>/\<close> for a path of separators only.
\<close>

definition Base :: "string \<Rightarrow> string" where
  "Base path =
     (if path = [] then ''.''
      else let stripped = rev (dropWhile (\<lambda>c. c = CHR ''/'') (rev path));
               element = rev (takeWhile (\<lambda>c. c \<noteq> CHR ''/'') (rev stripped))
           in if element = [] then ''/'' else element)"

subsection \<open>The regular expressions\<close>

text \<open>
  A compiled \<open>*regexp.Regexp\<close> is modelled by its \<open>FindStringSubmatch\<close>: \<open>None\<close> for
  \<open>nil\<close>, otherwise the whole match followed by the groups. \<open>MatchString\<close> holds when
  there is a match.
\<close>

type_synonym regexp = "string \<Rightarrow> string list option"

definition FindStringSubmatch :: "regexp \<Rightarrow> string \<Rightarrow> string list option" where
  "FindStringSubmatch regex s = regex s"

definition MatchString :: "regexp \<Rightarrow> string \<Rightarrow> bool" where
  "MatchString regex s = (regex s \<noteq> None)"

text \<open>A literal piece of a pattern: the rest of the text after it.\<close>

definition literal :: "string \<Rightarrow> string \<Rightarrow> string option" where
  "literal lit s = (if HasPrefix s lit then Some (drop (length lit) s) else None)"

text \<open>The class \<open>\s\<close> of Go's regular expressions: tab, line feed, form feed, carriage return, space.\<close>

definition reSpace :: "char \<Rightarrow> bool" where
  "reSpace c = (c \<in> set [CHR 0x09, CHR 0x0A, CHR 0x0C, CHR 0x0D, CHR '' ''])"

text \<open>
  The three-part pattern of \<open>processExcelFile\<close> (the variant with \<open>findURLColumn\<close>):
  \<^verbatim>\<open>https://([a-zA-Z0-9-]+)\.blob\.core\.windows\.net/([^/\s]+)/([^\s"]+)\<close>
  Each group is a greedy run of a class that excludes the byte the pattern asks for
  next (\<open>.\<close> after the account, \<open>/\<close> after the container), so at a given start
  the only way to match is to take each run whole. \<open>flexibleAt\<close> matches at the
  start of the text; \<open>flexibleRegex\<close> is the leftmost match.
\<close>

definition accountByte :: "char \<Rightarrow> bool" where
  "accountByte c =
     (within CHR ''a'' CHR ''z'' c \<or> within CHR ''A'' CHR ''Z'' c \<or> within CHR ''0'' CHR ''9'' c
      \<or> c = CHR ''-'')"

definition flexibleAt :: "string \<Rightarrow> string list option" where
  "flexibleAt s =
     (case literal ''https://'' s of
        None \<Rightarrow> None
      | Some r1 \<Rightarrow>
          let account = takeWhile accountByte r1; r2 = dropWhile accountByte r1 in
          if account = [] then None
          else (case literal ''.blob.core.windows.net/'' r2 of
            None \<Rightarrow> None
          | Some r3 \<Rightarrow>
              let inContainer = (\<lambda>c. c \<noteq> CHR ''/'' \<and> \<not> reSpace c);
                  container = takeWhile inContainer r3; r4 = dropWhile inContainer r3 in
              if container = [] then None
              else (case literal ''/'' r4 of
                None \<Rightarrow> None
              | Some r5 \<Rightarrow>
                  let path = takeWhile (\<lambda>c. \<not> reSpace c \<and> c \<noteq> CHR 0x22) r5 in
                  if path = [] then None
                  else Some [''https://'' @ account @ ''.blob.core.windows.net/''
                               @ container @ ''/'' @ path,
                             account, container, path])))"

fun flexibleRegex :: regexp where
  "flexibleRegex [] = None"
| "flexibleRegex (c # cs) =
     (case flexibleAt (c # cs) of Some m \<Rightarrow> Some m | None \<Rightarrow> flexibleRegex cs)"

text \<open>
  The pattern of the command-line program, of the first \<open>processExcelBlob\<close> and of the
  \<open>processExcelFile\<close> that looks for the header \<open>url\<close>:
  \<^verbatim>\<open>https://([^.]+)\.blob\.core\.windows\.net/([^/]+)/(.+)\<close>
  The account is the run up to the first dot, the container the run up to the first
  \<open>/\<close>, the path the rest of the line (\<open>.\<close> does not match a line feed).
\<close>

definition plainAt :: "string \<Rightarrow> string list option" where
  "plainAt s =
     (case literal ''https://'' s of
        None \<Rightarrow> None
      | Some r1 \<Rightarrow>
          let account = takeWhile (\<lambda>c. c \<noteq> CHR ''.'') r1;
              r2 = dropWhile (\<lambda>c. c \<noteq> CHR ''.'') r1 in
          if account = [] then None
          else (case literal ''.blob.core.windows.net/'' r2 of
            None \<Rightarrow> None
          | Some r3 \<Rightarrow>
              let container = takeWhile (\<lambda>c. c \<noteq> CHR ''/'') r3;
                  r4 = dropWhile (\<lambda>c. c \<noteq> CHR ''/'') r3 in
              if container = [] then None
              else (case literal ''/'' r4 of
                None \<Rightarrow> None
              | Some r5 \<Rightarrow>
                  let path = takeWhile (\<lambda>c. c \<noteq> CHR 0x0A) r5 in
                  if path = [] then None
                  else Some [''https://'' @ account @ ''.blob.core.windows.net/''
                               @ container @ ''/'' @ path,
                             account, container, path])))"

fun plainRegex :: regexp where
  "plainRegex [] = None"
| "plainRegex (c # cs) =
     (case plainAt (c # cs) of Some m \<Rightarrow> Some m | None \<Rightarrow> plainRegex cs)"

section \<open>The column locator\<close>

text \<open>
  \<open>findURLColumn(rows [][]string, regex *regexp.Regexp) int\<close>. A table is the list of
  its rows as \<open>GetRows\<close> gives them, each a list of cell texts; rows may differ in
  length.
\<close>

definition commonURLHeaders :: "string list" where
  "commonURLHeaders =
     [''azure_blob_location'', ''blob_location'', ''azure_blob'', ''blob_url'',
      ''url'', ''blob'', ''location'', ''file_path'', ''file_url'', ''storage_url'',
      ''azure_storage_url'', ''blob_path'']"

text \<open>
  The first loop, over the header cells from column \<open>colIndex\<close> on:
  \<^verbatim>\<open>
  for colIndex, header := range headers {
      cleanHeader := strings.ToLower(strings.TrimSpace(header))
      for _, commonHeader := range commonURLHeaders {
          if cleanHeader == commonHeader { return colIndex }
      }
  }
  \<close>
\<close>

fun headerLoop :: "string list \<Rightarrow> nat \<Rightarrow> nat option" where
  "headerLoop [] colIndex = None"
| "headerLoop (header # headers) colIndex =
     (if ToLower (TrimSpace header) \<in> set commonURLHeaders then Some colIndex
      else headerLoop headers (Suc colIndex))"

text \<open>
  The inner loop over the cells of one data row:
  \<^verbatim>\<open>
  for colIndex, cellValue := range row {
      if colIndex >= len(urlMatches) { continue }
      if regex.MatchString(strings.TrimSpace(cellValue)) { urlMatches[colIndex]++ }
  }
  \<close>
\<close>

fun cellLoop :: "regexp \<Rightarrow> string list \<Rightarrow> nat \<Rightarrow> nat list \<Rightarrow> nat list" where
  "cellLoop regex [] colIndex urlMatches = urlMatches"
| "cellLoop regex (cellValue # cells) colIndex urlMatches =
     (if colIndex \<ge> length urlMatches then cellLoop regex cells (Suc colIndex) urlMatches
      else if MatchString regex (TrimSpace cellValue)
        then cellLoop regex cells (Suc colIndex) (urlMatches[colIndex := urlMatches ! colIndex + 1])
      else cellLoop regex cells (Suc colIndex) urlMatches)"

text \<open>
  The loop over the data rows:
  \<^verbatim>\<open>for rowIndex := 1; rowIndex < len(rows) && rowIndex < 10; rowIndex++\<close>
\<close>

function rowLoop :: "regexp \<Rightarrow> string list list \<Rightarrow> nat \<Rightarrow> nat list \<Rightarrow> nat list" where
  "rowLoop regex rows rowIndex urlMatches =
     (if rowIndex < length rows \<and> rowIndex < 10
      then rowLoop regex rows (Suc rowIndex) (cellLoop regex (rows ! rowIndex) 0 urlMatches)
      else urlMatches)"
  by pat_completeness auto
termination
  by (relation "measure (\<lambda>(regex, rows, rowIndex, urlMatches). 10 - rowIndex)") auto

declare rowLoop.simps [simp del]

text \<open>
  The choice of the column:
  \<^verbatim>\<open>
  maxMatches := 0
  bestColumn := -1
  for colIndex, matches := range urlMatches {
      if matches > maxMatches { maxMatches = matches; bestColumn = colIndex }
  }
  \<close>
\<close>

fun bestLoop :: "nat list \<Rightarrow> nat \<Rightarrow> nat \<Rightarrow> int \<Rightarrow> nat \<times> int" where
  "bestLoop [] colIndex maxMatches bestColumn = (maxMatches, bestColumn)"
| "bestLoop (matches # rest) colIndex maxMatches bestColumn =
     (if matches > maxMatches then bestLoop rest (Suc colIndex) matches (int colIndex)
      else bestLoop rest (Suc colIndex) maxMatches bestColumn)"

definition findURLColumn :: "string list list \<Rightarrow> regexp \<Rightarrow> int" where
  "findURLColumn rows regex =
     (if length rows = 0 then - 1
      else let headers = rows ! 0 in
        (case headerLoop headers 0 of
           Some colIndex \<Rightarrow> int colIndex
         | None \<Rightarrow>
             let urlMatches = rowLoop regex rows 1 (replicate (length headers) 0);
                 bestColumn = snd (bestLoop urlMatches 0 0 (- 1))
             in if bestColumn \<noteq> - 1 then bestColumn else - 1))"

section \<open>The collaborators\<close>

text \<open>
  The programs call the object store (Azure SDK), the spreadsheet library (excelize),
  the JSON decoder and the process environment. These are outside the repository. An
  \<open>env\<close> gives, for each such call, the answer it makes to the arguments it gets: an
  \<^typ>\<open>error\<close> where the call can fail, \<open>None\<close> or \<open>Inr\<close> where it succeeds. The
  answer to a call is taken to depend on its arguments only. Every function of the
  model returns, with its result, the list of the requests it sent to the store, in
  the order sent.
\<close>

text \<open>
  A blob is named by its URL (\<open>blockblob.NewClient(blobURL, ...)\<close>) or by the service
  URL, the container and the blob name its client was built from
  (\<open>serviceClient.NewContainerClient(c).NewBlobClient(name)\<close>).
\<close>

datatype blob = BlobURL string | BlobIn string string string

datatype call =
    GetProperties blob
  | SetTier blob string
  | DownloadStream blob
  | ContainerGetProperties string string
  | ContainerCreate string string
  | Upload blob string "string option"

text \<open>
  A workbook, as far as the programs read and write it: its sheets in order, each with
  the rows that \<open>GetRows\<close> returns. A cell is addressed by column and row, both from 1
  (\<open>CoordinatesToCellName(col, row)\<close>); \<open>None\<close> stands for the empty name that a
  failed \<open>CoordinatesToCellName\<close> returns with its error.
\<close>

type_synonym table = "string list list"
type_synonym xlsx = "(string \<times> table) list"
type_synonym cellName = "(nat \<times> nat) option"

text \<open>The payloads of the two JSON decoders of the webhook.\<close>

record EventGridSubscriptionValidation =
  validationID :: string
  validationEventType :: string
  validationCode :: string

record EventGridEvent =
  eventID :: string
  eventType :: string
  dataURL :: string

record env =
  getenv :: "string \<Rightarrow> string"
  newCredential :: "error option"
  newServiceClient :: "string \<Rightarrow> error option"
  newBlockBlobClient :: "blob \<Rightarrow> error option"
  blobGetProperties :: "blob \<Rightarrow> error + string option"
  blobSetTier :: "blob \<Rightarrow> string \<Rightarrow> error option"
  blobDownloadStream :: "blob \<Rightarrow> error + (error + string)"
  blobUpload :: "blob \<Rightarrow> string \<Rightarrow> string option \<Rightarrow> error option"
  containerGetProperties :: "string \<Rightarrow> string \<Rightarrow> error option"
  containerCreate :: "string \<Rightarrow> string \<Rightarrow> error option"
  openReader :: "string \<Rightarrow> error + xlsx"
  writeBuffer :: "xlsx \<Rightarrow> error + string"
  getRowsError :: "string \<Rightarrow> error option"
  coordinatesError :: "nat \<Rightarrow> nat \<Rightarrow> error option"
  setCellValueError :: "string \<Rightarrow> nat \<times> nat \<Rightarrow> string \<Rightarrow> error option"
  urlParsePath :: "string \<Rightarrow> error + string"
  unmarshalValidation :: "string \<Rightarrow> error + EventGridSubscriptionValidation list"
  unmarshalEvents :: "string \<Rightarrow> error + EventGridEvent list"

text \<open>
  \<open>blobGetProperties\<close> answers with the access tier of the blob, \<open>None\<close> when the
  properties carry no tier (\<open>props.AccessTier == nil\<close>). \<open>blobDownloadStream\<close>
  answers with the body, whose \<open>io.ReadAll\<close> may fail in turn. \<open>urlParsePath\<close> is
  \<open>url.Parse(u)\<close> followed by \<open>.Path\<close>.
\<close>

subsection \<open>HTTP responses\<close>

datatype body =
    Text string
  | ValidationResponse string
  | JSONObject "(string \<times> string) list"

record response =
  statusCode :: nat
  contentType :: "string option"
  body :: body

text \<open>
  \<open>http.Error(w, msg, code)\<close> answers with the code and the message as plain text.
  \<open>contentType\<close> holds the header where the handler sets it itself.
\<close>

definition httpError :: "string \<Rightarrow> nat \<Rightarrow> response" where
  "httpError msg code = \<lparr>statusCode = code, contentType = None, body = Text msg\<rparr>"

definition serviceURLOf :: "string \<Rightarrow> string" where
  "serviceURLOf account = ''https://'' @ account @ ''.blob.core.windows.net/''"

definition crossMark :: string where
  "crossMark = [CHR 0xE2, CHR 0x9D, CHR 0x8C]"

definition checkMark :: string where
  "checkMark = [CHR 0xE2, CHR 0x9C, CHR 0x85]"

definition rightArrow :: string where
  "rightArrow = [CHR 0xE2, CHR 0x86, CHR 0x92]"

section \<open>The uploader: \<open>handleUpload\<close>\<close>

text \<open>
  What \<open>handleUpload\<close> reads of its request: the method, the outcome of
  \<open>r.ParseMultipartForm(50 << 20)\<close>, and the outcome of \<open>r.FormFile("file")\<close>, which on
  success is the file name of the part (\<open>header.Filename\<close>) and the file's bytes.
\<close>

record uploadRequest =
  uploadMethod :: string
  parseMultipartForm :: "error option"
  formFile :: "error + string \<times> string"

definition onlyXlsxMessage :: string where
  "onlyXlsxMessage =
     crossMark @ '' Only .xlsx files are allowed. Please upload an Excel file with .xlsx extension.''"

definition handleUpload :: "env \<Rightarrow> uploadRequest \<Rightarrow> response \<times> call list" where
  "handleUpload env r =
     (if uploadMethod r \<noteq> ''POST'' then (httpError ''Only POST allowed'' 405, [])
      else case parseMultipartForm r of
        Some err \<Rightarrow> (httpError (''failed to parse form: '' @ err) 400, [])
      | None \<Rightarrow>
      (case formFile r of
        Inl err \<Rightarrow> (httpError (''failed to get file: '' @ err) 400, [])
      | Inr (fileName, file) \<Rightarrow>
          let fileExt = ToLower (Ext fileName) in
          if fileExt \<noteq> ''.xlsx'' then (httpError onlyXlsxMessage 400, [])
          else
            let storageAccount = getenv env ''STORAGE_ACCOUNT'';
                containerName = getenv env ''STORAGE_CONTAINER'' in
            if storageAccount = [] \<or> containerName = []
            then (httpError ''STORAGE_ACCOUNT and STORAGE_CONTAINER must be set'' 500, [])
            else (case newCredential env of
              Some err \<Rightarrow> (httpError (''failed to get credential: '' @ err) 500, [])
            | None \<Rightarrow>
                let serviceURL = serviceURLOf storageAccount in
                (case newServiceClient env serviceURL of
                  Some err \<Rightarrow> (httpError (''failed to create service client: '' @ err) 500, [])
                | None \<Rightarrow>
                    let blobName = Base fileName;
                        blobClient = BlobIn serviceURL containerName blobName in
                    (case blobUpload env blobClient file None of
                      Some err \<Rightarrow>
                        (httpError (''failed to upload blob: '' @ err) 500,
                         [Upload blobClient file None])
                    | None \<Rightarrow>
                        (\<lparr>statusCode = 200, contentType = Some ''application/json'',
                          body = JSONObject
                            [(''message'', checkMark @ '' Upload successful: '' @ blobName
                                @ ''. File is being processed...''),
                             (''originalFile'', blobName),
                             (''status'', ''success'')]\<rparr>,
                         [Upload blobClient file None]))))))"

section \<open>The tier remediator: \<open>processBlobTier\<close>\<close>

text \<open>
  \<open>processBlobTier(account, containerName, blobPath string) (string, error)\<close>. The
  result is the status text and the error (\<open>None\<close> for \<open>nil\<close>), with the requests
  sent to the store. \<open>blob.AccessTierArchive\<close> is \<open>"Archive"\<close> and
  \<open>blob.AccessTierCool\<close> is \<open>"Cool"\<close>.
\<close>

definition changedStatus :: string where
  "changedStatus = ''Changed: Archive '' @ rightArrow @ '' Cool''"

definition processBlobTier ::
  "env \<Rightarrow> string \<Rightarrow> string \<Rightarrow> string \<Rightarrow> (string \<times> error option) \<times> call list" where
  "processBlobTier env account containerName blobPath =
     (case newCredential env of
        Some err \<Rightarrow> ((''Error: Failed to get credential'', Some err), [])
      | None \<Rightarrow>
          let serviceURL = serviceURLOf account in
          (case newServiceClient env serviceURL of
             Some err \<Rightarrow> ((''Error: Failed to create service client'', Some err), [])
           | None \<Rightarrow>
               let blobClient = BlobIn serviceURL containerName (encodedBlobPath blobPath) in
               (case blobGetProperties env blobClient of
                  Inl err \<Rightarrow>
                    ((''Error: Blob not accessible'', Some err), [GetProperties blobClient])
                | Inr None \<Rightarrow>
                    ((''Skipped: No access tier set'', None), [GetProperties blobClient])
                | Inr (Some currentTier) \<Rightarrow>
                    if currentTier = ''Archive'' then
                      (case newBlockBlobClient env blobClient of
                         Some err \<Rightarrow>
                           ((''Error: Failed to create block client'', Some err),
                            [GetProperties blobClient])
                       | None \<Rightarrow>
                           (case blobSetTier env blobClient ''Cool'' of
                              Some err \<Rightarrow>
                                ((''Error: Failed to set tier'', Some err),
                                 [GetProperties blobClient, SetTier blobClient ''Cool''])
                            | None \<Rightarrow>
                                ((changedStatus, None),
                                 [GetProperties blobClient, SetTier blobClient ''Cool''])))
                    else
                      ((''Skipped: Already '' @ currentTier, None),
                       [GetProperties blobClient]))))"

section \<open>The workbook\<close>

text \<open>
  The rows of a sheet are kept as \<open>GetRows\<close> returns them. \<open>SetCellValue\<close> at column
  \<open>col\<close> and row \<open>row\<close> (both from 1) lengthens the table and the row as far as
  needed, with empty rows and empty cells, and puts the value in place.
\<close>

definition padTo :: "nat \<Rightarrow> 'a \<Rightarrow> 'a list \<Rightarrow> 'a list" where
  "padTo n x xs = xs @ replicate (n - length xs) x"

definition setCell :: "table \<Rightarrow> nat \<Rightarrow> nat \<Rightarrow> string \<Rightarrow> table" where
  "setCell rows col row v =
     (let padded = padTo row [] rows
      in padded[row - 1 := (padTo col [] (padded ! (row - 1)))[col - 1 := v]])"

fun putSheet :: "string \<Rightarrow> table \<Rightarrow> xlsx \<Rightarrow> xlsx" where
  "putSheet sheet rows [] = []"
| "putSheet sheet rows ((name, old) # rest) =
     (if name = sheet then (name, rows) # rest else (name, old) # putSheet sheet rows rest)"

definition GetSheetList :: "xlsx \<Rightarrow> string list" where
  "GetSheetList f = map fst f"

definition GetRows :: "env \<Rightarrow> xlsx \<Rightarrow> string \<Rightarrow> error + table" where
  "GetRows env f sheet =
     (case getRowsError env sheet of
        Some err \<Rightarrow> Inl err
      | None \<Rightarrow>
          (case map_of f sheet of
             None \<Rightarrow> Inl (''sheet '' @ sheet @ '' does not exist'')
           | Some rows \<Rightarrow> Inr rows))"

definition CoordinatesToCellName :: "env \<Rightarrow> nat \<Rightarrow> nat \<Rightarrow> cellName \<times> error option" where
  "CoordinatesToCellName env col row =
     (case coordinatesError env col row of
        Some err \<Rightarrow> (None, Some err)
      | None \<Rightarrow> (Some (col, row), None))"

definition SetCellValue :: "env \<Rightarrow> xlsx \<Rightarrow> string \<Rightarrow> cellName \<Rightarrow> string \<Rightarrow> error option \<times> xlsx" where
  "SetCellValue env f sheet cell v =
     (case cell of
        None \<Rightarrow> (Some ''cannot convert cell to coordinates'', f)
      | Some (col, row) \<Rightarrow>
          (case map_of f sheet of
             None \<Rightarrow> (Some (''sheet '' @ sheet @ '' does not exist''), f)
           | Some rows \<Rightarrow>
               (case setCellValueError env sheet (col, row) v of
                  Some err \<Rightarrow> (Some err, f)
                | None \<Rightarrow> (None, putSheet sheet (setCell rows col row v) f))))"

section \<open>The status annotator: \<open>processExcelFile\<close>\<close>

text \<open>The counters \<open>stats["processed"]\<close>, \<open>stats["changed"]\<close>, \<open>stats["skipped"]\<close>, \<open>stats["errors"]\<close>.\<close>

record stats =
  processed :: nat
  changed :: nat
  skipped :: nat
  errors :: nat

definition noStats :: stats where
  "noStats = \<lparr>processed = 0, changed = 0, skipped = 0, errors = 0\<rparr>"

text \<open>
  The state of the loop over the data rows: the counters, the workbook and the
  requests sent to the store so far.
\<close>

type_synonym progress = "stats \<times> xlsx \<times> call list"

text \<open>
  The writing of the status, at the end of the body of the loop (in both variants of
  \<open>processExcelFile\<close>):
  \<^verbatim>\<open>
  statusCell, err := excelize.CoordinatesToCellName(statusColIndex+1, rowIndex+1)
  if err != nil { stats["errors"]++; continue }
  if err := f.SetCellValue(sheetName, statusCell, status); err != nil {
      stats["errors"]++; continue
  }
  \<close>
\<close>

definition writeStatus ::
  "env \<Rightarrow> string \<Rightarrow> nat \<Rightarrow> nat \<Rightarrow> string \<Rightarrow> stats \<times> xlsx \<Rightarrow> stats \<times> xlsx" where
  "writeStatus env sheetName statusColIndex rowIndex status sf =
     (case sf of (st, f) \<Rightarrow>
        (case CoordinatesToCellName env (statusColIndex + 1) (rowIndex + 1) of
           (statusCell, Some err) \<Rightarrow> (st\<lparr>errors := errors st + 1\<rparr>, f)
         | (statusCell, None) \<Rightarrow>
             (case SetCellValue env f sheetName statusCell status of
                (Some err, f') \<Rightarrow> (st\<lparr>errors := errors st + 1\<rparr>, f')
              | (None, f') \<Rightarrow> (st, f'))))"

text \<open>
  The body of the loop of the first \<open>processExcelFile\<close> (the one that calls
  \<open>findURLColumn\<close>), for the row \<open>rows[rowIndex]\<close>.
\<close>

definition processRow ::
  "env \<Rightarrow> string \<Rightarrow> nat \<Rightarrow> nat \<Rightarrow> nat \<Rightarrow> string list \<Rightarrow> progress \<Rightarrow> progress" where
  "processRow env sheetName urlColIndex statusColIndex rowIndex row p =
     (case p of (st, f, calls) \<Rightarrow>
        if length row = 0 then p
        else if urlColIndex \<ge> length row then p
        else
          let urlValue = TrimSpace (row ! urlColIndex) in
          if urlValue = [] then p
          else (case FindStringSubmatch flexibleRegex urlValue of
            None \<Rightarrow> p
          | Some m \<Rightarrow>
              let st1 = st\<lparr>processed := processed st + 1\<rparr>;
                  account = m ! 1; containerName = m ! 2; blobPath = m ! 3
              in (case processBlobTier env account containerName blobPath of
                ((status, Some err), sent) \<Rightarrow>
                  (case writeStatus env sheetName statusColIndex rowIndex (''Error: '' @ err)
                          (st1\<lparr>errors := errors st1 + 1\<rparr>, f) of
                     (st2, f') \<Rightarrow> (st2, f', calls @ sent))
              | ((status, None), sent) \<Rightarrow>
                  let st2 = (if Contains status changedStatus
                             then st1\<lparr>changed := changed st1 + 1\<rparr>
                             else st1\<lparr>skipped := skipped st1 + 1\<rparr>)
                  in (case writeStatus env sheetName statusColIndex rowIndex status (st2, f) of
                     (st3, f') \<Rightarrow> (st3, f', calls @ sent)))))"

text \<open>\<^verbatim>\<open>for rowIndex := 1; rowIndex < len(rows); rowIndex++\<close>\<close>

function dataRowLoop ::
  "env \<Rightarrow> string \<Rightarrow> nat \<Rightarrow> nat \<Rightarrow> table \<Rightarrow> nat \<Rightarrow> progress \<Rightarrow> progress" where
  "dataRowLoop env sheetName urlColIndex statusColIndex rows rowIndex p =
     (if rowIndex < length rows
      then dataRowLoop env sheetName urlColIndex statusColIndex rows (Suc rowIndex)
             (processRow env sheetName urlColIndex statusColIndex rowIndex (rows ! rowIndex) p)
      else p)"
  by pat_completeness auto
termination
  by (relation "measure (\<lambda>(env, sheetName, urlColIndex, statusColIndex, rows, rowIndex, p).
        length rows - rowIndex)") auto

declare dataRowLoop.simps [simp del]

text \<open>
  \<open>processExcelFile(f *excelize.File) (map[string]int, error)\<close>, the variant with
  \<open>findURLColumn\<close>. The workbook is changed in place; the model returns it.
\<close>

definition processExcelFile :: "env \<Rightarrow> xlsx \<Rightarrow> (stats \<times> error option) \<times> xlsx \<times> call list" where
  "processExcelFile env f =
     (let sheetList = GetSheetList f in
      if length sheetList = 0 then ((noStats, Some ''no sheets found in Excel file''), f, [])
      else
        let sheetName = sheetList ! 0 in
        (case GetRows env f sheetName of
           Inl err \<Rightarrow>
             ((noStats, Some (''failed to get rows from sheet '' @ sheetName @ '': '' @ err)), f, [])
         | Inr rows \<Rightarrow>
             if length rows = 0 then ((noStats, None), f, [])
             else
               let urlColIndex = findURLColumn rows flexibleRegex in
               if urlColIndex = - 1 then ((noStats, None), f, [])
               else
                 let statusColIndex = length (rows ! 0) in
                 (case CoordinatesToCellName env (statusColIndex + 1) 1 of
                    (statusCell, Some err) \<Rightarrow>
                      ((noStats, Some (''failed to get status cell coordinates: '' @ err)), f, [])
                  | (statusCell, None) \<Rightarrow>
                      (case SetCellValue env f sheetName statusCell ''Status'' of
                         (Some err, f1) \<Rightarrow>
                           ((noStats, Some (''failed to set status header: '' @ err)), f1, [])
                       | (None, f1) \<Rightarrow>
                           (case dataRowLoop env sheetName (nat urlColIndex) statusColIndex
                                   rows 1 (noStats, f1, []) of
                              (st, f2, calls) \<Rightarrow> ((st, None), f2, calls))))))"

subsection \<open>The variant that looks for the header \<open>url\<close>\<close>

text \<open>
  \<open>strings.EqualFold\<close> compares two strings rune by rune under the simple case folding
  of Unicode. The program calls it with the second argument \<open>"url"\<close> only, and this call is
  what is modelled. The letters \<open>u\<close>, \<open>r\<close> and \<open>l\<close> fold with \<open>U\<close>, \<open>R\<close> and \<open>L\<close> and with
  no rune beyond ASCII (unlike \<open>k\<close>, which folds with U+212A, and \<open>s\<close>, which folds with
  U+017F), and an ill-formed byte is read as \<open>RuneError\<close>; so
  \<open>strings.EqualFold(s, "url")\<close> holds exactly when \<open>s\<close> is three bytes, \<open>u\<close> or \<open>U\<close>, then
  \<open>r\<close> or \<open>R\<close>, then \<open>l\<close> or \<open>L\<close>.
\<close>

definition EqualFold_url :: "string \<Rightarrow> bool" where
  "EqualFold_url s = (asciiLower s = ''url'')"

text \<open>
  \<^verbatim>\<open>
  urlColIndex := -1
  for i, header := range headers {
      if strings.EqualFold(strings.TrimSpace(header), "url") { urlColIndex = i; break }
  }
  \<close>
\<close>

fun urlHeaderLoop :: "string list \<Rightarrow> nat \<Rightarrow> int" where
  "urlHeaderLoop [] i = - 1"
| "urlHeaderLoop (header # headers) i =
     (if EqualFold_url (TrimSpace header) then int i else urlHeaderLoop headers (Suc i))"

text \<open>The body of the loop of this variant.\<close>

definition processRow_urlHeader ::
  "env \<Rightarrow> nat \<Rightarrow> nat \<Rightarrow> nat \<Rightarrow> string list \<Rightarrow> progress \<Rightarrow> progress" where
  "processRow_urlHeader env urlColIndex statusColIndex rowIndex row p =
     (case p of (st, f, calls) \<Rightarrow>
        if urlColIndex \<ge> length row then p
        else
          let cellValue = row ! urlColIndex in
          (case FindStringSubmatch plainRegex cellValue of
            None \<Rightarrow> p
          | Some m \<Rightarrow>
              let st1 = st\<lparr>processed := processed st + 1\<rparr>;
                  account = m ! 1; containerName = m ! 2; blobPath = m ! 3
              in (case processBlobTier env account containerName blobPath of
                ((status, Some err), sent) \<Rightarrow>
                  (case writeStatus env ''Sheet1'' statusColIndex rowIndex (''Error: '' @ err)
                          (st1\<lparr>errors := errors st1 + 1\<rparr>, f) of
                     (st2, f') \<Rightarrow> (st2, f', calls @ sent))
              | ((status, None), sent) \<Rightarrow>
                  let st2 = (if status = changedStatus
                             then st1\<lparr>changed := changed st1 + 1\<rparr>
                             else st1\<lparr>skipped := skipped st1 + 1\<rparr>)
                  in (case writeStatus env ''Sheet1'' statusColIndex rowIndex status (st2, f) of
                     (st3, f') \<Rightarrow> (st3, f', calls @ sent)))))"

function dataRowLoop_urlHeader ::
  "env \<Rightarrow> nat \<Rightarrow> nat \<Rightarrow> table \<Rightarrow> nat \<Rightarrow> progress \<Rightarrow> progress" where
  "dataRowLoop_urlHeader env urlColIndex statusColIndex rows rowIndex p =
     (if rowIndex < length rows
      then dataRowLoop_urlHeader env urlColIndex statusColIndex rows (Suc rowIndex)
             (processRow_urlHeader env urlColIndex statusColIndex rowIndex (rows ! rowIndex) p)
      else p)"
  by pat_completeness auto
termination
  by (relation "measure (\<lambda>(env, urlColIndex, statusColIndex, rows, rowIndex, p).
        length rows - rowIndex)") auto

declare dataRowLoop_urlHeader.simps [simp del]

text \<open>
  \<open>processExcelFile\<close> of this variant. It reads \<open>Sheet1\<close>; a header \<open>url\<close> that is
  not found makes it use column 0; the status goes to the column after the URL column;
  the error of the first \<open>CoordinatesToCellName\<close> is dropped
  (\<open>statusCell, _ := ...\<close>).
\<close>

definition processExcelFile_urlHeader ::
  "env \<Rightarrow> xlsx \<Rightarrow> (stats \<times> error option) \<times> xlsx \<times> call list" where
  "processExcelFile_urlHeader env f =
     (case GetRows env f ''Sheet1'' of
        Inl err \<Rightarrow> ((noStats, Some (''failed to get rows: '' @ err)), f, [])
      | Inr rows \<Rightarrow>
          if length rows = 0 then ((noStats, None), f, [])
          else
            let headers = rows ! 0;
                found = urlHeaderLoop headers 0;
                urlColIndex = (if found = - 1 then 0 else nat found);
                statusColIndex = urlColIndex + 1;
                statusCell = fst (CoordinatesToCellName env (statusColIndex + 1) 1)
            in (case SetCellValue env f ''Sheet1'' statusCell ''Status'' of
                  (Some err, f1) \<Rightarrow>
                    ((noStats, Some (''failed to set status header: '' @ err)), f1, [])
                | (None, f1) \<Rightarrow>
                    (case dataRowLoop_urlHeader env urlColIndex statusColIndex rows 1
                            (noStats, f1, []) of
                       (st, f2, calls) \<Rightarrow> ((st, None), f2, calls))))"

section \<open>The programs that scan every cell\<close>





section \<open>The output publisher\<close>

text \<open>
  \<open>extractFilenameFromURL(blobURL string) (string, error)\<close>: the last piece of the
  path of the parsed URL.
\<close>

definition extractFilenameFromURL :: "env \<Rightarrow> string \<Rightarrow> error + string" where
  "extractFilenameFromURL env blobURL =
     (case urlParsePath env blobURL of
        Inl err \<Rightarrow> Inl err
      | Inr path \<Rightarrow>
          let pathParts = Split path CHR ''/'' in
          if length pathParts = 0 then Inl (''invalid URL path: '' @ path)
          else Inr (pathParts ! (length pathParts - 1)))"

definition spreadsheetContentType :: string where
  "spreadsheetContentType = ''application/vnd.openxmlformats-officedocument.spreadsheetml.sheet''"

text \<open>
  The step that makes sure of the output container:
  \<^verbatim>\<open>
  _, err = containerClient.GetProperties(ctx, nil)
  if err != nil {
      _, err = containerClient.Create(ctx, nil)
      if err != nil { return fmt.Errorf("failed to create output container: %w", err) }
  }
  \<close>
\<close>

definition ensureContainer :: "env \<Rightarrow> string \<Rightarrow> string \<Rightarrow> error option \<times> call list" where
  "ensureContainer env serviceURL outputContainer =
     (case containerGetProperties env serviceURL outputContainer of
        None \<Rightarrow> (None, [ContainerGetProperties serviceURL outputContainer])
      | Some missing \<Rightarrow>
          (containerCreate env serviceURL outputContainer,
           [ContainerGetProperties serviceURL outputContainer,
            ContainerCreate serviceURL outputContainer]))"

text \<open>
  \<open>uploadToOutputContainer(ctx, cred, storageAccount, outputContainer, originalBlobURL,
  excelBuffer) error\<close>.
\<close>

definition uploadToOutputContainer ::
  "env \<Rightarrow> string \<Rightarrow> string \<Rightarrow> string \<Rightarrow> string \<Rightarrow> error option \<times> call list" where
  "uploadToOutputContainer env storageAccount outputContainer originalBlobURL excelBuffer =
     (let serviceURL = serviceURLOf storageAccount in
      case newServiceClient env serviceURL of
        Some err \<Rightarrow>
          (Some (''failed to create service client for output storage account: '' @ err), [])
      | None \<Rightarrow>
      (case ensureContainer env serviceURL outputContainer of
        (Some err, calls) \<Rightarrow> (Some (''failed to create output container: '' @ err), calls)
      | (None, calls) \<Rightarrow>
      (case extractFilenameFromURL env originalBlobURL of
        Inl err \<Rightarrow> (Some (''failed to extract filename from URL: '' @ err), calls)
      | Inr originalFilename \<Rightarrow>
          let newFilename = TrimSuffix originalFilename ''.xlsx'' @ ''_processed.xlsx'';
              blobClient = BlobIn serviceURL outputContainer newFilename;
              sent = calls @ [Upload blobClient excelBuffer (Some spreadsheetContentType)]
          in (case blobUpload env blobClient excelBuffer (Some spreadsheetContentType) of
            Some err \<Rightarrow>
              (Some (''failed to upload processed file to output storage account: '' @ err), sent)
          | None \<Rightarrow> (None, sent)))))"

section \<open>The pipeline for one event: \<open>processExcelBlob\<close>\<close>

text \<open>
  \<open>processExcelBlob(blobURL string) error\<close>. Its text is the same beside both variants
  of \<open>processExcelFile\<close>; the variant it calls is the parameter \<open>processFile\<close>.
\<close>

definition processExcelBlobWith ::
  "(env \<Rightarrow> xlsx \<Rightarrow> (stats \<times> error option) \<times> xlsx \<times> call list)
     \<Rightarrow> env \<Rightarrow> string \<Rightarrow> error option \<times> call list" where
  "processExcelBlobWith processFile env blobURL =
     (case newCredential env of
        Some err \<Rightarrow> (Some (''failed to get MI credential: '' @ err), [])
      | None \<Rightarrow>
      (case newBlockBlobClient env (BlobURL blobURL) of
        Some err \<Rightarrow> (Some (''failed to create block blob client: '' @ err), [])
      | None \<Rightarrow>
      (let download = [DownloadStream (BlobURL blobURL)] in
       case blobDownloadStream env (BlobURL blobURL) of
        Inl err \<Rightarrow> (Some (''failed to download blob: '' @ err), download)
      | Inr (Inl err) \<Rightarrow> (Some (''failed to read blob: '' @ err), download)
      | Inr (Inr data) \<Rightarrow>
      (case openReader env data of
        Inl err \<Rightarrow> (Some (''failed to open excel file: '' @ err), download)
      | Inr f \<Rightarrow>
          let outputStorageAccount = getenv env ''OUTPUT_STORAGE_ACCOUNT'' in
          if outputStorageAccount = []
          then (Some ''OUTPUT_STORAGE_ACCOUNT environment variable not set'', download)
          else
            let outputContainer = getenv env ''OUTPUT_STORAGE_CONTAINER'' in
            if outputContainer = []
            then (Some ''OUTPUT_STORAGE_CONTAINER environment variable not set'', download)
            else (case processFile env f of
              ((statusUpdates, Some err), f', calls) \<Rightarrow>
                (Some (''failed to process excel file: '' @ err), download @ calls)
            | ((statusUpdates, None), f', calls) \<Rightarrow>
                (case writeBuffer env f' of
                   Inl err \<Rightarrow>
                     (Some (''failed to write excel to buffer: '' @ err), download @ calls)
                 | Inr excelBuffer \<Rightarrow>
                     (case uploadToOutputContainer env outputStorageAccount outputContainer
                             blobURL excelBuffer of
                        (Some err, sent) \<Rightarrow>
                          (Some (''failed to upload to output container: '' @ err),
                           download @ calls @ sent)
                      | (None, sent) \<Rightarrow> (None, download @ calls @ sent))))))))"

definition processExcelBlob :: "env \<Rightarrow> string \<Rightarrow> error option \<times> call list" where
  "processExcelBlob = processExcelBlobWith processExcelFile"

definition processExcelBlob_urlHeader :: "env \<Rightarrow> string \<Rightarrow> error option \<times> call list" where
  "processExcelBlob_urlHeader = processExcelBlobWith processExcelFile_urlHeader"

section \<open>The webhook gateway\<close>

text \<open>
  What the handlers read of a request: the method and the outcome of
  \<open>io.ReadAll(r.Body)\<close>.
\<close>

record webhookRequest =
  requestMethod :: string
  readBody :: "error + string"

definition validationEventName :: string where
  "validationEventName = ''Microsoft.EventGrid.SubscriptionValidationEvent''"

definition blobCreatedEventName :: string where
  "blobCreatedEventName = ''Microsoft.Storage.BlobCreated''"

text \<open>
  The handshake, the same in \<open>handleProcess\<close> and \<open>handleProcessedNotification\<close>:
  \<^verbatim>\<open>
  var validationReq []EventGridSubscriptionValidation
  if err := json.Unmarshal(body, &validationReq); err == nil && len(validationReq) > 0 {
      if validationReq[0].EventType == "Microsoft.EventGrid.SubscriptionValidationEvent" {
          response := EventGridValidationResponse{
              ValidationResponse: validationReq[0].Data.ValidationCode }
          w.Header().Set("Content-Type", "application/json")
          w.WriteHeader(http.StatusOK)
          json.NewEncoder(w).Encode(response)
          return
      }
  }
  \<close>
  \<open>Some\<close> response when the handler answers and returns here.
\<close>

definition validationHandshake :: "env \<Rightarrow> string \<Rightarrow> response option" where
  "validationHandshake env payload =
     (case unmarshalValidation env payload of
        Inl err \<Rightarrow> None
      | Inr validationReq \<Rightarrow>
          if length validationReq > 0
             \<and> validationEventType (validationReq ! 0) = validationEventName
          then Some \<lparr>statusCode = 200, contentType = Some ''application/json'',
                     body = ValidationResponse (validationCode (validationReq ! 0))\<rparr>
          else None)"

definition eventProcessed :: response where
  "eventProcessed =
     \<lparr>statusCode = 200, contentType = None, body = Text (checkMark @ '' Event processed'')\<rparr>"

text \<open>
  The loop over the events of \<open>handleProcess\<close>; \<open>process\<close> is \<open>processExcelBlob\<close>.
  The requests sent for the events before are kept when a later event fails.
\<close>

fun eventLoop :: "(string \<Rightarrow> error option \<times> call list) \<Rightarrow> EventGridEvent list \<Rightarrow> response \<times> call list" where
  "eventLoop process [] = (eventProcessed, [])"
| "eventLoop process (event # events) =
     (if eventType event = validationEventName then eventLoop process events
      else if eventType event \<noteq> blobCreatedEventName then eventLoop process events
      else (case process (dataURL event) of
        (Some err, sent) \<Rightarrow> (httpError (''failed to process blob: '' @ err) 500, sent)
      | (None, sent) \<Rightarrow>
          (case eventLoop process events of (resp, later) \<Rightarrow> (resp, sent @ later))))"

definition handleProcessWith ::
  "(string \<Rightarrow> error option \<times> call list) \<Rightarrow> env \<Rightarrow> webhookRequest \<Rightarrow> response \<times> call list" where
  "handleProcessWith process env r =
     (if requestMethod r \<noteq> ''POST'' then (httpError ''Method not allowed'' 405, [])
      else (case readBody r of
        Inl err \<Rightarrow> (httpError ''bad request'' 400, [])
      | Inr payload \<Rightarrow>
          (case validationHandshake env payload of
             Some resp \<Rightarrow> (resp, [])
           | None \<Rightarrow>
               (case unmarshalEvents env payload of
                  Inl err \<Rightarrow> (httpError ''bad request'' 400, [])
                | Inr events \<Rightarrow> eventLoop process events))))"

definition handleProcess :: "env \<Rightarrow> webhookRequest \<Rightarrow> response \<times> call list" where
  "handleProcess env r = handleProcessWith (processExcelBlob env) env r"

subsection \<open>The notification tracker: \<open>handleProcessedNotification\<close>\<close>

text \<open>
  The handler keeps \<open>latestProcessedFile\<close>, a variable of the process; the model takes
  its value and returns the new one. \<open>now\<close> is \<open>time.Now()\<close>. It sends nothing to the
  store.
\<close>

record ProcessedFile =
  latestFileName :: string
  latestURL :: string
  latestProcessedAt :: nat

fun notificationLoop :: "nat \<Rightarrow> EventGridEvent list \<Rightarrow> ProcessedFile option \<Rightarrow> ProcessedFile option" where
  "notificationLoop now [] latest = latest"
| "notificationLoop now (event # events) latest =
     (if eventType event = validationEventName then notificationLoop now events latest
      else if eventType event \<noteq> blobCreatedEventName then notificationLoop now events latest
      else
        let blobURL = dataURL event in
        if Contains blobURL ''_processed.xlsx''
        then
          let urlParts = Split blobURL CHR ''/'';
              name = urlParts ! (length urlParts - 1)
          in notificationLoop now events
               (Some \<lparr>latestFileName = name, latestURL = blobURL, latestProcessedAt = now\<rparr>)
        else notificationLoop now events latest)"

definition notificationProcessed :: response where
  "notificationProcessed =
     \<lparr>statusCode = 200, contentType = None,
      body = Text (checkMark @ '' Notification processed'')\<rparr>"

definition handleProcessedNotification ::
  "env \<Rightarrow> nat \<Rightarrow> webhookRequest \<Rightarrow> ProcessedFile option \<Rightarrow> response \<times> ProcessedFile option" where
  "handleProcessedNotification env now r latest =
     (if requestMethod r \<noteq> ''POST'' then (httpError ''Method not allowed'' 405, latest)
      else (case readBody r of
        Inl err \<Rightarrow> (httpError ''bad request'' 400, latest)
      | Inr payload \<Rightarrow>
          (case validationHandshake env payload of
             Some resp \<Rightarrow> (resp, latest)
           | None \<Rightarrow>
               (case unmarshalEvents env payload of
                  Inl err \<Rightarrow> (httpError ''bad request'' 400, latest)
                | Inr events \<Rightarrow> (notificationProcessed, notificationLoop now events latest)))))"

section \<open>Notions of the specification\<close>

text \<open>
  The specification's count for the content heuristic: the number of the given data
  rows whose cell in column \<open>j\<close> matches the reference pattern.
\<close>

definition urlCount :: "regexp \<Rightarrow> string list list \<Rightarrow> nat \<Rightarrow> nat" where
  "urlCount regex dataRows j =
     length (filter (\<lambda>row. j < length row \<and> MatchString regex (TrimSpace (row ! j))) dataRows)"

text \<open>
  A table whose header names no reference column, with ten data rows of which only the
  tenth holds a reference (in column 1).
\<close>

definition tenDataRows :: "string list list" where
  "tenDataRows =
     [''a'', ''b''] # replicate 9 [''x'', ''y'']
       @ [[''x'', ''https://acct.blob.core.windows.net/cont/a.txt'']]"

text \<open>An environment in which every call succeeds and the store holds nothing.\<close>

definition quietEnv :: env where
  "quietEnv =
     \<lparr>getenv = (\<lambda>name. ''set''),
      newCredential = None,
      newServiceClient = (\<lambda>u. None),
      newBlockBlobClient = (\<lambda>b. None),
      blobGetProperties = (\<lambda>b. Inl ''BlobNotFound''),
      blobSetTier = (\<lambda>b t. None),
      blobDownloadStream = (\<lambda>b. Inl ''BlobNotFound''),
      blobUpload = (\<lambda>b d c. None),
      containerGetProperties = (\<lambda>s c. None),
      containerCreate = (\<lambda>s c. None),
      openReader = (\<lambda>d. Inl ''not a workbook''),
      writeBuffer = (\<lambda>f. Inr ''bytes''),
      getRowsError = (\<lambda>s. None),
      coordinatesError = (\<lambda>c r. None),
      setCellValueError = (\<lambda>s c v. None),
      urlParsePath = (\<lambda>u. Inl ''parse error''),
      unmarshalValidation = (\<lambda>b. Inl ''invalid character''),
      unmarshalEvents = (\<lambda>b. Inl ''invalid character'')\<rparr>"

definition uploadOf :: "string \<Rightarrow> uploadRequest" where
  "uploadOf fileName =
     \<lparr>uploadMethod = ''POST'', parseMultipartForm = None, formFile = Inr (fileName, ''PK'')\<rparr>"

text \<open>The tier-change requests among the requests sent.\<close>

fun isTierChange :: "call \<Rightarrow> bool" where
  "isTierChange (SetTier b tier) = True"
| "isTierChange other = False"

definition tierChanges :: "call list \<Rightarrow> call list" where
  "tierChanges calls = filter isTierChange calls"

text \<open>
  A store whose blobs are all in the tier \<open>Archive\<close>, and the same store when no block
  blob client can be made.
\<close>

definition archiveEnv :: env where
  "archiveEnv = quietEnv\<lparr>blobGetProperties := (\<lambda>b. Inr (Some ''Archive''))\<rparr>"

definition noBlockClientEnv :: env where
  "noBlockClientEnv = archiveEnv\<lparr>newBlockBlobClient := (\<lambda>b. Some ''no client'')\<rparr>"

definition blobA :: blob where
  "blobA = BlobIn ''https://acct.blob.core.windows.net/'' ''cont'' ''a.txt''"

text \<open>Workbooks of one sheet, and the reference used in the examples.\<close>

definition urlA :: string where
  "urlA = ''https://acct.blob.core.windows.net/cont/a.txt''"

definition bookOf :: "table \<Rightarrow> xlsx" where
  "bookOf rows = [(''Sheet1'', rows)]"







definition withStatus :: "nat \<Rightarrow> string \<Rightarrow> string list \<Rightarrow> string list" where
  "withStatus n status row = (padTo (Suc n) [] row)[n := status]"








text \<open>
  An environment for a whole run: the blob \<open>in/a.xlsx\<close> downloads as a workbook with
  one reference, every other download fails; the path of a URL of the account is what
  follows the host.
\<close>

definition hostOfAcct :: string where
  "hostOfAcct = ''https://acct.blob.core.windows.net''"

definition pipelineEnv :: env where
  "pipelineEnv =
     archiveEnv
       \<lparr>blobDownloadStream :=
          (\<lambda>b. if b = BlobURL (hostOfAcct @ ''/in/a.xlsx'') then Inr (Inr ''PK'')
                else Inl ''BlobNotFound''),
        openReader := (\<lambda>d. Inr (bookOf [[''url''], [urlA]])),
        urlParsePath :=
          (\<lambda>u. if HasPrefix u hostOfAcct then Inr (drop (length hostOfAcct) u)
                else Inl ''parse error'')\<rparr>"


definition postOf :: "string \<Rightarrow> webhookRequest" where
  "postOf b = \<lparr>requestMethod = ''POST'', readBody = Inr b\<rparr>"

text \<open>The body of the handshake, decoded, and an environment that decodes it.\<close>

definition handshake :: EventGridSubscriptionValidation where
  "handshake =
     \<lparr>validationID = ''1'', validationEventType = validationEventName,
      validationCode = ''abc123''\<rparr>"

definition handshakeEnv :: env where
  "handshakeEnv = pipelineEnv\<lparr>unmarshalValidation := (\<lambda>b. Inr [handshake])\<rparr>"



text \<open>The uploads among the requests sent.\<close>

fun isUpload :: "call \<Rightarrow> bool" where
  "isUpload (Upload b d c) = True"
| "isUpload other = False"

definition uploads :: "call list \<Rightarrow> call list" where
  "uploads calls = filter isUpload calls"
section \<open>Path encoding keeps the segments\<close>











lemma Split_not_Nil: "Split s c \<noteq> []"
  by (induction s) (auto split: list.splits)

lemma Join_Split: "Join (Split s c) [c] = s"
proof (induction s)
  case Nil
  show ?case by simp
next
  case (Cons a s)
  obtain seg segs where sp: "Split s c = seg # segs"
    using Split_not_Nil [of s c] by (cases "Split s c") auto
  show ?case
    using Cons sp by (cases segs) auto
qed





subsection \<open>The encoder of the command-line program\<close>

lemma ReplaceSpaces_keeps_other_bytes:
  "CHR '' '' \<notin> set p \<Longrightarrow> ReplaceSpaces p = p"
  by (induction p) auto








section \<open>The column locator: what \<open>findURLColumn\<close> returns\<close>

lemma headerLoop_Some:
  "headerLoop headers k = Some c \<Longrightarrow>
     k \<le> c \<and> c - k < length headers
     \<and> ToLower (TrimSpace (headers ! (c - k))) \<in> set commonURLHeaders
     \<and> (\<forall>j < c - k. ToLower (TrimSpace (headers ! j)) \<notin> set commonURLHeaders)"
proof (induction headers arbitrary: k)
  case Nil
  then show ?case by simp
next
  case (Cons h hs)
  show ?case
  proof (cases "ToLower (TrimSpace h) \<in> set commonURLHeaders")
    case True
    with Cons.prems show ?thesis by simp
  next
    case False
    with Cons.prems have rec: "headerLoop hs (Suc k) = Some c" by simp
    from Cons.IH [OF rec] have ih:
      "Suc k \<le> c" "c - Suc k < length hs"
      "ToLower (TrimSpace (hs ! (c - Suc k))) \<in> set commonURLHeaders"
      "\<forall>j < c - Suc k. ToLower (TrimSpace (hs ! j)) \<notin> set commonURLHeaders"
      by auto
    from ih(1) have ck: "c - k = Suc (c - Suc k)" by arith
    show ?thesis
      using ih False unfolding ck
      by (auto simp: nth_Cons' less_Suc_eq_0_disj)
  qed
qed

lemma headerLoop_None:
  "headerLoop headers k = None \<longleftrightarrow> (\<forall>h \<in> set headers. ToLower (TrimSpace h) \<notin> set commonURLHeaders)"
  by (induction headers arbitrary: k) auto

lemma length_cellLoop: "length (cellLoop regex row k m) = length m"
  by (induction row arbitrary: k m) auto

lemma cellLoop_nth:
  "j < length m \<Longrightarrow>
   cellLoop regex row k m ! j =
     m ! j + (if k \<le> j \<and> j - k < length row \<and> MatchString regex (TrimSpace (row ! (j - k)))
              then 1 else 0)"
proof (induction row arbitrary: k m)
  case Nil
  then show ?case by simp
next
  case (Cons cell cells)
  have step: "\<And>m'. length m' = length m \<Longrightarrow>
     cellLoop regex cells (Suc k) m' ! j =
       m' ! j + (if Suc k \<le> j \<and> j - Suc k < length cells
                    \<and> MatchString regex (TrimSpace (cells ! (j - Suc k))) then 1 else 0)"
    using Cons.IH [of _ "Suc k"] Cons.prems by simp
  show ?case
  proof (cases "j = k")
    case True
    then show ?thesis using step Cons.prems by auto
  next
    case False
    then show ?thesis using Cons.prems
      by (auto simp: step nth_Cons' Suc_le_eq)
  qed
qed

lemma rowLoop_foldl:
  "rowLoop regex rows i m = foldl (\<lambda>m row. cellLoop regex row 0 m) m (drop i (take 10 rows))"
proof (induction regex rows i m rule: rowLoop.induct)
  case (1 regex rows rowIndex urlMatches)
  show ?case
  proof (cases "rowIndex < length rows \<and> rowIndex < 10")
    case True
    then have "rowIndex < length (take 10 rows)" by simp
    from Cons_nth_drop_Suc [OF this]
    have d: "drop rowIndex (take 10 rows) = rows ! rowIndex # drop (Suc rowIndex) (take 10 rows)"
      using True by simp
    show ?thesis
      using True "1.IH" by (subst rowLoop.simps) (simp add: d)
  next
    case False
    then have "drop rowIndex (take 10 rows) = []" by auto
    moreover have "rowLoop regex rows rowIndex urlMatches = urlMatches"
      using False by (subst rowLoop.simps) auto
    ultimately show ?thesis by simp
  qed
qed

lemma foldl_cellLoop_length:
  "length (foldl (\<lambda>m row. cellLoop regex row 0 m) m rs) = length m"
  by (induction rs arbitrary: m) (auto simp: length_cellLoop)

lemma foldl_cellLoop_nth:
  "j < length m \<Longrightarrow>
   foldl (\<lambda>m row. cellLoop regex row 0 m) m rs ! j = m ! j + urlCount regex rs j"
proof (induction rs arbitrary: m)
  case Nil
  then show ?case by (simp add: urlCount_def)
next
  case (Cons r rs)
  have "j < length (cellLoop regex r 0 m)" using Cons.prems by (simp add: length_cellLoop)
  from Cons.IH [OF this] show ?case
    using Cons.prems by (simp add: cellLoop_nth urlCount_def)
qed

lemma bestLoop_result:
  "bestLoop ms k mx b = (mx', b') \<Longrightarrow>
     (mx' = mx \<and> b' = b \<and> (\<forall>m \<in> set ms. m \<le> mx))
   \<or> (\<exists>i < length ms. b' = int (k + i) \<and> mx' = ms ! i \<and> mx < ms ! i
        \<and> (\<forall>j < length ms. ms ! j \<le> ms ! i) \<and> (\<forall>j < i. ms ! j < ms ! i))"
proof (induction ms arbitrary: k mx b)
  case Nil
  then show ?case by simp
next
  case (Cons m ms)
  show ?case
  proof (cases "m > mx")
    case True
    with Cons.prems have rec: "bestLoop ms (Suc k) m (int k) = (mx', b')" by simp
    from Cons.IH [OF rec] show ?thesis
    proof (elim disjE exE conjE)
      assume "mx' = m" "b' = int k" "\<forall>x \<in> set ms. x \<le> m"
      then have "0 < length (m # ms) \<and> b' = int (k + 0) \<and> mx' = (m # ms) ! 0 \<and> mx < (m # ms) ! 0
        \<and> (\<forall>j < length (m # ms). (m # ms) ! j \<le> (m # ms) ! 0) \<and> (\<forall>j < 0. (m # ms) ! j < (m # ms) ! 0)"
        using True by (auto simp: nth_Cons' )
      then show ?thesis by blast
    next
      fix i assume i: "i < length ms" "b' = int (Suc k + i)" "mx' = ms ! i" "m < ms ! i"
        "\<forall>j < length ms. ms ! j \<le> ms ! i" "\<forall>j < i. ms ! j < ms ! i"
      then have "Suc i < length (m # ms) \<and> b' = int (k + Suc i) \<and> mx' = (m # ms) ! Suc i
        \<and> mx < (m # ms) ! Suc i
        \<and> (\<forall>j < length (m # ms). (m # ms) ! j \<le> (m # ms) ! Suc i)
        \<and> (\<forall>j < Suc i. (m # ms) ! j < (m # ms) ! Suc i)"
        using True by (auto simp: nth_Cons' less_Suc_eq_0_disj)
      then show ?thesis by blast
    qed
  next
    case False
    with Cons.prems have rec: "bestLoop ms (Suc k) mx b = (mx', b')" by simp
    from Cons.IH [OF rec] show ?thesis
    proof (elim disjE exE conjE)
      assume "mx' = mx" "b' = b" "\<forall>x \<in> set ms. x \<le> mx"
      then show ?thesis using False by auto
    next
      fix i assume i: "i < length ms" "b' = int (Suc k + i)" "mx' = ms ! i" "mx < ms ! i"
        "\<forall>j < length ms. ms ! j \<le> ms ! i" "\<forall>j < i. ms ! j < ms ! i"
      then have "Suc i < length (m # ms) \<and> b' = int (k + Suc i) \<and> mx' = (m # ms) ! Suc i
        \<and> mx < (m # ms) ! Suc i
        \<and> (\<forall>j < length (m # ms). (m # ms) ! j \<le> (m # ms) ! Suc i)
        \<and> (\<forall>j < Suc i. (m # ms) ! j < (m # ms) ! Suc i)"
        using False by (auto simp: nth_Cons' less_Suc_eq_0_disj)
      then show ?thesis by blast
    qed
  qed
qed


lemma findURLColumn_empty: "findURLColumn [] regex = - 1"
  by (simp add: findURLColumn_def)

text \<open>
  A header cell that, trimmed and lowered, is in the vocabulary decides the column: the
  leftmost such cell wins, whatever the data rows hold.
\<close>

lemma findURLColumn_by_header:
  assumes "rows \<noteq> []" and "i < length (rows ! 0)"
    and "ToLower (TrimSpace (rows ! 0 ! i)) \<in> set commonURLHeaders"
    and "\<forall>j < i. ToLower (TrimSpace (rows ! 0 ! j)) \<notin> set commonURLHeaders"
  shows "findURLColumn rows regex = int i"
proof -
  have "headerLoop (rows ! 0) 0 \<noteq> None"
    using assms(2,3) by (auto simp: headerLoop_None)
  then obtain c where c: "headerLoop (rows ! 0) 0 = Some c" by auto
  from headerLoop_Some [OF c] have
    "c < length (rows ! 0)"
    "ToLower (TrimSpace (rows ! 0 ! c)) \<in> set commonURLHeaders"
    "\<forall>j < c. ToLower (TrimSpace (rows ! 0 ! j)) \<notin> set commonURLHeaders"
    by auto
  with assms(3,4) have "c = i"
    by (meson linorder_neqE_nat)
  with c assms(1) show ?thesis
    by (simp add: findURLColumn_def)
qed

text \<open>
  With no such header the data rows decide. The rows counted are
  \<open>rows[1]\<close> to \<open>rows[9]\<close>: the loop stops at \<open>rowIndex < 10\<close>, so it reads at most
  nine data rows. The column returned has the strictly highest count, the leftmost
  among equals; with no match at all the result is \<open>-1\<close>.
\<close>

lemma findURLColumn_by_content:
  assumes "rows \<noteq> []"
    and "\<forall>h \<in> set (rows ! 0). ToLower (TrimSpace h) \<notin> set commonURLHeaders"
  shows "(if \<forall>j < length (rows ! 0). urlCount regex (drop 1 (take 10 rows)) j = 0
          then findURLColumn rows regex = - 1
          else \<exists>i < length (rows ! 0).
                 findURLColumn rows regex = int i
                 \<and> 0 < urlCount regex (drop 1 (take 10 rows)) i
                 \<and> (\<forall>j < length (rows ! 0).
                        urlCount regex (drop 1 (take 10 rows)) j
                          \<le> urlCount regex (drop 1 (take 10 rows)) i)
                 \<and> (\<forall>j < i. urlCount regex (drop 1 (take 10 rows)) j
                                < urlCount regex (drop 1 (take 10 rows)) i))"
proof -
  define ms where "ms = rowLoop regex rows 1 (replicate (length (rows ! 0)) 0)"
  define cnt where "cnt = urlCount regex (drop 1 (take 10 rows))"
  have len: "length ms = length (rows ! 0)"
    by (simp add: ms_def rowLoop_foldl foldl_cellLoop_length)
  have nth: "ms ! j = cnt j" if "j < length (rows ! 0)" for j
    using that by (simp add: ms_def cnt_def rowLoop_foldl foldl_cellLoop_nth)
  have none: "headerLoop (rows ! 0) 0 = None"
    using assms(2) by (simp add: headerLoop_None)
  have res: "findURLColumn rows regex = snd (bestLoop ms 0 0 (- 1))"
    using assms(1) none by (simp add: findURLColumn_def ms_def Let_def)
  obtain mx b where mb: "bestLoop ms 0 0 (- 1) = (mx, b)"
    by (cases "bestLoop ms 0 0 (- 1)") auto
  from bestLoop_result [OF mb] show ?thesis
  proof (elim disjE exE conjE)
    assume "b = - 1" and all: "\<forall>m \<in> set ms. m \<le> 0"
    have "cnt j = 0" if "j < length (rows ! 0)" for j
      using all that len nth [OF that] by (metis le_zero_eq nth_mem)
    then show ?thesis
      using res mb \<open>b = - 1\<close> by (simp add: cnt_def)
  next
    fix i assume i: "i < length ms" "b = int (0 + i)" "0 < ms ! i"
      "\<forall>j < length ms. ms ! j \<le> ms ! i" "\<forall>j < i. ms ! j < ms ! i"
    have pos: "0 < cnt i" using i(1,3) len nth by simp
    have le: "\<forall>j < length (rows ! 0). cnt j \<le> cnt i"
      using i(1,4) len nth by simp
    have lt: "\<forall>j < i. cnt j < cnt i"
      using i(1,5) len nth by simp
    have "\<not> (\<forall>j < length (rows ! 0). cnt j = 0)"
      using pos i(1) len by auto
    moreover have "findURLColumn rows regex = int i"
      using res mb i(2) by simp
    ultimately show ?thesis
      using pos le lt i(1) len unfolding cnt_def by auto
  qed
qed

text \<open>
  C2 at a table with ten data rows. No header is in the vocabulary; over the first ten
  data rows column 1 holds one reference and column 0 none, so the column with the
  strictly highest count is column 1. The loop reads \<open>rows[1]\<close> to \<open>rows[9]\<close> only,
  finds no reference and reports \<open>-1\<close>.
\<close>

theorem findURLColumn_tenth_data_row:
  "length tenDataRows = 11
   \<and> headerLoop (tenDataRows ! 0) 0 = None
   \<and> urlCount flexibleRegex (drop 1 tenDataRows) 0 = 0
   \<and> urlCount flexibleRegex (drop 1 tenDataRows) 1 = 1
   \<and> findURLColumn tenDataRows flexibleRegex = - 1"
proof (intro conjI)
  show "length tenDataRows = 11" by code_simp
  show "headerLoop (tenDataRows ! 0) 0 = None" by code_simp
  show "urlCount flexibleRegex (drop 1 tenDataRows) 0 = 0" by code_simp
  show "urlCount flexibleRegex (drop 1 tenDataRows) 1 = 1" by code_simp
  show "findURLColumn tenDataRows flexibleRegex = - 1" by code_simp
qed

section \<open>The uploader accepts the extension \<open>.xlsx\<close> in any case\<close>

subsection \<open>Lower case under Unicode and under ASCII\<close>

lemma within_of_char: "within lo hi c \<longleftrightarrow> (of_char lo :: nat) \<le> of_char c \<and> (of_char c :: nat) \<le> of_char hi"
  by (simp add: within_def less_eq_char_def)

lemma ToLower_ascii:
  assumes "(of_char c :: nat) < 128"
  shows "ToLower (c # cs) = toLowerByte c # ToLower cs"
proof -
  have d: "DecodeRuneInString (c # cs) = (of_char c, 1)"
    using assms by (simp add: DecodeRuneInString_def byteAt_def)
  have "AppendRune (unicodeToLower (of_char c)) = [toLowerByte c]"
    using assms
    by (simp add: AppendRune_def unicodeToLower_def toLowerByte_def within_of_char)
  with d show ?thesis by simp
qed

lemma mod_above: "q * k \<le> n \<Longrightarrow> n < q * k + q \<Longrightarrow> (n::nat) mod q = n - q * k"
proof -
  assume a: "q * k \<le> n" "n < q * k + q"
  then have "n = q * k + (n - q * k)" by simp
  then have "n mod q = (q * k + (n - q * k)) mod q" by simp
  also have "\<dots> = (n - q * k) mod q" by (rule mod_mult_self4)
  also from a have "\<dots> = n - q * k" by simp
  finally show ?thesis .
qed
lemma DecodeRuneInString_beyond_ascii:
  assumes "(128::nat) \<le> of_char c"
  shows "128 \<le> fst (DecodeRuneInString (c # cs))"
proof -
  define n :: nat where "n = of_char c"
  have two: "128 \<le> n mod 32 * 64 + b" if "194 \<le> n" "n < 224" for b :: nat
  proof -
    from that have "2 \<le> n mod 32" using mod_above [of 32 6 n] by simp
    then have "2 * 64 \<le> n mod 32 * 64" by (rule mult_le_mono1)
    then show ?thesis by simp
  qed
  have second: "128 \<le> of_char d mod 64 * 64 + b"
    if "160 \<le> (of_char d :: nat)" "(of_char d :: nat) \<le> 191" for b :: nat and d :: char
  proof -
    from that have "32 \<le> (of_char d :: nat) mod 64"
      using mod_above [of 64 2 "of_char d"] by simp
    then have "32 * 64 \<le> (of_char d :: nat) mod 64 * 64" by (rule mult_le_mono1)
    then show ?thesis by simp
  qed
  have three: "128 \<le> n mod 16 * 4096 + a + b" if "224 < n" "n < 240" for a b :: nat
  proof -
    from that have "1 \<le> n mod 16" using mod_above [of 16 14 n] by simp
    then have "1 * 4096 \<le> n mod 16 * 4096" by (rule mult_le_mono1)
    then show ?thesis by simp
  qed
  have second4: "128 \<le> of_char d mod 64 * 4096 + a + b"
    if "144 \<le> (of_char d :: nat)" "(of_char d :: nat) \<le> 191" for a b :: nat and d :: char
  proof -
    from that have "16 \<le> (of_char d :: nat) mod 64"
      using mod_above [of 64 2 "of_char d"] by simp
    then have "16 * 4096 \<le> (of_char d :: nat) mod 64 * 4096" by (rule mult_le_mono1)
    then show ?thesis by simp
  qed
  have four: "128 \<le> n mod 8 * 262144 + a + b + e" if "240 < n" "n \<le> 244" for a b e :: nat
  proof -
    from that have "1 \<le> n mod 8" using mod_above [of 8 30 n] by simp
    then have "1 * 262144 \<le> n mod 8 * 262144" by (rule mult_le_mono1)
    then show ?thesis by simp
  qed
  consider "n < 194 \<or> 244 < n" | "194 \<le> n" "n < 224" | "n = 224" | "224 < n" "n < 240"
    | "n = 240" | "240 < n" "n \<le> 244" by linarith
  then show ?thesis
  proof cases
    case 1
    with assms show ?thesis
      by (auto simp: DecodeRuneInString_def byteAt_def RuneError_def n_def)
  next
    case 2
    with two show ?thesis
      by (simp add: DecodeRuneInString_def byteAt_def RuneError_def n_def [symmetric] Let_def)
  next
    case 3
    with second [of "cs ! 0"] show ?thesis
      by (simp add: DecodeRuneInString_def byteAt_def RuneError_def n_def [symmetric] Let_def
          continuation_def not_less)
  next
    case 4
    with three show ?thesis
      by (simp add: DecodeRuneInString_def byteAt_def RuneError_def n_def [symmetric] Let_def
          continuation_def)
  next
    case 5
    with second4 [of "cs ! 0"] show ?thesis
      by (simp add: DecodeRuneInString_def byteAt_def RuneError_def n_def [symmetric] Let_def
          continuation_def not_less)
  next
    case 6
    with four show ?thesis
      by (simp add: DecodeRuneInString_def byteAt_def RuneError_def n_def [symmetric] Let_def
          continuation_def)
  qed
qed

lemma lowerInRanges_cases:
  "lowerInRanges tbl r = r
   \<or> (\<exists>(lo, hi, stride, lower) \<in> set tbl. lo \<le> r \<and> r \<le> hi \<and> lowerInRanges tbl r = lower + (r - lo))"
  by (induction tbl r rule: lowerInRanges.induct) auto

lemma caseRanges_targets:
  "list_all (\<lambda>(lo, hi, stride, lower). 128 \<le> lower \<or> lo = hi \<and> (lower = 105 \<or> lower = 107)) caseRanges"
  by (simp add: caseRanges_def)

lemma unicodeToLower_beyond_ascii:
  assumes "128 \<le> r"
  shows "128 \<le> unicodeToLower r \<or> unicodeToLower r = 105 \<or> unicodeToLower r = 107"
proof -
  have u: "unicodeToLower r = lowerInRanges caseRanges r"
    using assms by (simp add: unicodeToLower_def)
  from lowerInRanges_cases [of caseRanges r] show ?thesis
  proof
    assume "lowerInRanges caseRanges r = r"
    with u assms show ?thesis by simp
  next
    assume "\<exists>(lo, hi, stride, lower) \<in> set caseRanges.
      lo \<le> r \<and> r \<le> hi \<and> lowerInRanges caseRanges r = lower + (r - lo)"
    then obtain lo hi stride lower where e: "(lo, hi, stride, lower) \<in> set caseRanges"
      and b: "lo \<le> r" "r \<le> hi" and l: "lowerInRanges caseRanges r = lower + (r - lo)"
      by auto
    from caseRanges_targets e
    have "128 \<le> lower \<or> lo = hi \<and> (lower = 105 \<or> lower = 107)"
      by (auto simp: list_all_iff)
    with b l u show ?thesis by auto
  qed
qed

lemma AppendRune_beyond_ascii:
  assumes "128 \<le> v"
  shows "\<exists>b bs. AppendRune v = b # bs \<and> (128::nat) \<le> of_char b"
proof -
  have a: "(128::nat) \<le> of_char (char_of (192 + v div 64))" if "v \<le> 2047"
  proof -
    from that have "192 + v div 64 < 256" by simp
    then show ?thesis by simp
  qed
  have b: "(128::nat) \<le> of_char (char_of (224 + v div 4096))" if "v \<le> 65535"
  proof -
    from that have "224 + v div 4096 < 256" by simp
    then show ?thesis by simp
  qed
  have c: "(128::nat) \<le> of_char (char_of (240 + v div 262144))" if "v \<le> 1114111"
  proof -
    from that have "240 + v div 262144 < 256" by simp
    then show ?thesis by simp
  qed
  have d: "(128::nat) \<le> of_char (CHR 0xEF)" by simp
  from assms a b c d show ?thesis
    by (auto simp: AppendRune_def)
qed


lemma ToLower_beyond_ascii:
  assumes "(128::nat) \<le> of_char c"
  shows "\<exists>b bs. ToLower (c # cs) = b # bs
           \<and> ((128::nat) \<le> of_char b \<or> b = CHR ''i'' \<or> b = CHR ''k'')"
proof -
  obtain r width where d: "DecodeRuneInString (c # cs) = (r, width)" by force
  with DecodeRuneInString_beyond_ascii [OF assms, of cs] have r: "128 \<le> r" by simp
  have t: "ToLower (c # cs) = AppendRune (unicodeToLower r) @ ToLower (drop (width - 1) cs)"
    using d by simp
  have i: "AppendRune 105 = ''i''" and k: "AppendRune 107 = ''k''" by code_simp+
  from unicodeToLower_beyond_ascii [OF r] show ?thesis
  proof (elim disjE)
    assume "128 \<le> unicodeToLower r"
    from AppendRune_beyond_ascii [OF this] t show ?thesis by auto
  next
    assume "unicodeToLower r = 105"
    with t i show ?thesis by simp
  next
    assume "unicodeToLower r = 107"
    with t k show ?thesis by simp
  qed
qed

lemma toLowerByte_beyond_ascii: "(128::nat) \<le> of_char c \<Longrightarrow> toLowerByte c = c"
  by (simp add: toLowerByte_def within_of_char)

text \<open>
  A string whose bytes are among \<open>.\<close>, \<open>x\<close>, \<open>l\<close> and \<open>s\<close> is the lower case of the same
  strings under Unicode and under ASCII: a rune beyond ASCII lowers to a rune beyond
  ASCII, to \<open>i\<close> or to \<open>k\<close>.
\<close>

lemma ToLower_eq_iff:
  "set t \<subseteq> set ''.xls'' \<Longrightarrow> ToLower s = t \<longleftrightarrow> asciiLower s = t"
proof (induction s arbitrary: t)
  case Nil
  then show ?case by (simp add: asciiLower_def)
next
  case (Cons c cs)
  show ?case
  proof (cases "(of_char c :: nat) < 128")
    case True
    then have l: "ToLower (c # cs) = toLowerByte c # ToLower cs" by (rule ToLower_ascii)
    have a: "asciiLower (c # cs) = toLowerByte c # asciiLower cs" by (simp add: asciiLower_def)
    show ?thesis
    proof (cases t)
      case Nil
      with l a show ?thesis by simp
    next
      case (Cons x rest)
      with Cons.prems have "set rest \<subseteq> set ''.xls''" by auto
      from Cons.IH [OF this] l a Cons show ?thesis by simp
    qed
  next
    case False
    then have n: "(128::nat) \<le> of_char c" by simp
    from ToLower_beyond_ascii [OF n, of cs] obtain b bs
      where l: "ToLower (c # cs) = b # bs"
        and b: "(128::nat) \<le> of_char b \<or> b = CHR ''i'' \<or> b = CHR ''k''" by blast
    have a: "asciiLower (c # cs) = c # asciiLower cs"
      using toLowerByte_beyond_ascii [OF n] by (simp add: asciiLower_def)
    show ?thesis
    proof (cases t)
      case Nil
      with l a show ?thesis by simp
    next
      case (Cons x rest)
      with Cons.prems
      have x: "(of_char x :: nat) < 128 \<and> x \<noteq> CHR ''i'' \<and> x \<noteq> CHR ''k''" by auto
      with b n have "b \<noteq> x" "c \<noteq> x" by auto
      with l a Cons show ?thesis by simp
    qed
  qed
qed

lemma ToLower_xlsx: "ToLower s = ''.xlsx'' \<longleftrightarrow> asciiLower s = ''.xlsx''"
  by (rule ToLower_eq_iff) simp

subsection \<open>The extension of a file name\<close>

lemma ExtLoop_suffix:
  "ExtLoop r seen = res \<Longrightarrow> res \<noteq> [] \<Longrightarrow> \<exists>pre. rev r @ seen = pre @ res"
proof (induction r seen rule: ExtLoop.induct)
  case (1 seen)
  then show ?case by simp
next
  case (2 c front seen)
  show ?case
  proof (cases "c = CHR ''/''")
    case True
    with 2 show ?thesis by simp
  next
    case nslash: False
    show ?thesis
    proof (cases "c = CHR ''.''")
      case True
      with 2 nslash have "res = c # seen" by simp
      then show ?thesis by simp
    next
      case False
      with 2 nslash obtain pre where "rev front @ c # seen = pre @ res" by auto
      then show ?thesis by simp
    qed
  qed
qed

lemma Ext_suffix: "Ext path \<noteq> [] \<Longrightarrow> \<exists>pre. path = pre @ Ext path"
  using ExtLoop_suffix [of "rev path" "[]" "Ext path"] by (simp add: Ext_def)

lemma HasSuffix_append: "HasSuffix (pre @ s) s"
  by (simp add: HasSuffix_def)

lemma HasSuffix_iff: "HasSuffix s suffix \<longleftrightarrow> (\<exists>pre. s = pre @ suffix)"
proof
  assume "HasSuffix s suffix"
  then have "s = take (length s - length suffix) s @ suffix"
    by (metis HasSuffix_def append_take_drop_id)
  then show "\<exists>pre. s = pre @ suffix" ..
next
  assume "\<exists>pre. s = pre @ suffix"
  then show "HasSuffix s suffix" by (auto simp: HasSuffix_def)
qed

lemma Ext_xlsx_imp_suffix:
  assumes "ToLower (Ext fileName) = ''.xlsx''"
  shows "HasSuffix (asciiLower fileName) ''.xlsx''"
proof -
  from assms have e: "asciiLower (Ext fileName) = ''.xlsx''" by (simp add: ToLower_xlsx)
  then have "Ext fileName \<noteq> []" by (auto simp: asciiLower_def)
  then obtain pre where "fileName = pre @ Ext fileName" using Ext_suffix by blast
  then have "asciiLower fileName = asciiLower pre @ asciiLower (Ext fileName)"
    by (metis asciiLower_def map_append)
  with e show ?thesis by (simp add: HasSuffix_iff)
qed

lemma toLowerByte_xlsx:
  "\<forall>c::char. (toLowerByte c = CHR ''.'' \<longrightarrow> c = CHR ''.'')
     \<and> (toLowerByte c \<in> set ''xls'' \<longrightarrow> c \<noteq> CHR ''.'' \<and> c \<noteq> CHR ''/'')"
  by code_simp

lemma Ext_of_dotted_suffix:
  assumes "a \<noteq> CHR ''.''" "a \<noteq> CHR ''/''" "b \<noteq> CHR ''.''" "b \<noteq> CHR ''/''"
    "c \<noteq> CHR ''.''" "c \<noteq> CHR ''/''" "d \<noteq> CHR ''.''" "d \<noteq> CHR ''/''"
  shows "Ext (pre @ [CHR ''.'', a, b, c, d]) = [CHR ''.'', a, b, c, d]"
  using assms by (simp add: Ext_def)

lemma suffix_xlsx_imp_Ext:
  assumes "HasSuffix (asciiLower fileName) ''.xlsx''"
  shows "ToLower (Ext fileName) = ''.xlsx''"
proof -
  from assms obtain lpre where l: "asciiLower fileName = lpre @ ''.xlsx''"
    by (auto simp: HasSuffix_iff)
  then have len: "length fileName = length lpre + 5"
  proof -
    have "length (asciiLower fileName) = length lpre + 5" unfolding l by simp
    then show ?thesis by (simp add: asciiLower_def)
  qed
  define pre where "pre = take (length lpre) fileName"
  define suf where "suf = drop (length lpre) fileName"
  have fn: "fileName = pre @ suf" by (simp add: pre_def suf_def)
  have ls: "length suf = 5" using len by (simp add: suf_def)
  have lsuf: "asciiLower suf = ''.xlsx''"
    using l by (simp add: asciiLower_def suf_def drop_map [symmetric])
  moreover from ls obtain e a b c d where suf: "suf = [e, a, b, c, d]"
    by (auto simp: length_Suc_conv eval_nat_numeral)
  ultimately have t: "toLowerByte e = CHR ''.''" "toLowerByte a = CHR ''x''"
    "toLowerByte b = CHR ''l''" "toLowerByte c = CHR ''s''" "toLowerByte d = CHR ''x''"
    by (simp_all add: asciiLower_def)
  from t toLowerByte_xlsx have e: "e = CHR ''.''" by blast
  from t toLowerByte_xlsx have nd:
    "a \<noteq> CHR ''.''" "a \<noteq> CHR ''/''" "b \<noteq> CHR ''.''" "b \<noteq> CHR ''/''"
    "c \<noteq> CHR ''.''" "c \<noteq> CHR ''/''" "d \<noteq> CHR ''.''" "d \<noteq> CHR ''/''"
    by (metis list.set_intros(1) list.set_intros(2))+
  have "Ext fileName = suf"
    unfolding fn suf e by (rule Ext_of_dotted_suffix) (rule nd)+
  with lsuf show ?thesis by (simp add: ToLower_xlsx)
qed

lemma Ext_xlsx_iff:
  "ToLower (Ext fileName) = ''.xlsx'' \<longleftrightarrow> HasSuffix (asciiLower fileName) ''.xlsx''"
  using Ext_xlsx_imp_suffix suffix_xlsx_imp_Ext by blast

lemma handleUpload_rejects:
  assumes "uploadMethod r = ''POST''" and "parseMultipartForm r = None"
    and "formFile r = Inr (fileName, file)"
    and "ToLower (Ext fileName) \<noteq> ''.xlsx''"
  shows "handleUpload env r = (httpError onlyXlsxMessage 400, [])"
  using assms by (simp add: handleUpload_def)

lemma handleUpload_calls:
  assumes "formFile r = Inr (fileName, file)"
  shows "snd (handleUpload env r) = []
       \<or> ToLower (Ext fileName) = ''.xlsx''
          \<and> snd (handleUpload env r)
              = [Upload (BlobIn (serviceURLOf (getenv env ''STORAGE_ACCOUNT''))
                          (getenv env ''STORAGE_CONTAINER'') (Base fileName)) file None]"
  using assms by (simp add: handleUpload_def Let_def split: option.splits)

lemma handleUpload_no_file:
  "formFile r = Inl err \<Longrightarrow> snd (handleUpload env r) = []"
  by (simp add: handleUpload_def split: option.splits)

text \<open>
  C9, as amended. For every upload request (method \<open>POST\<close>, a form that parses, a
  part \<open>file\<close>): a file whose name does not end in \<open>.xlsx\<close>, compared without regard
  to case, is rejected with status 400 and the message that names the restriction, and
  nothing is sent to the store; and whenever something is sent to the store, the name
  ends in \<open>.xlsx\<close> without regard to case and the one request is the upload of the
  file under its base name.
\<close>

theorem handleUpload_xlsx_only:
  assumes "uploadMethod r = ''POST''" and "parseMultipartForm r = None"
    and "formFile r = Inr (fileName, file)"
  shows "(\<not> HasSuffix (asciiLower fileName) ''.xlsx''
            \<longrightarrow> handleUpload env r = (httpError onlyXlsxMessage 400, []))
       \<and> (snd (handleUpload env r) \<noteq> []
            \<longrightarrow> HasSuffix (asciiLower fileName) ''.xlsx''
              \<and> snd (handleUpload env r)
                  = [Upload (BlobIn (serviceURLOf (getenv env ''STORAGE_ACCOUNT''))
                              (getenv env ''STORAGE_CONTAINER'') (Base fileName)) file None])"
proof (intro conjI impI)
  assume "\<not> HasSuffix (asciiLower fileName) ''.xlsx''"
  then have "ToLower (Ext fileName) \<noteq> ''.xlsx''"
    by (simp add: Ext_xlsx_iff)
  with assms show "handleUpload env r = (httpError onlyXlsxMessage 400, [])"
    by (rule handleUpload_rejects)
next
  assume sent: "snd (handleUpload env r) \<noteq> []"
  with handleUpload_calls [OF assms(3), of env]
  show "HasSuffix (asciiLower fileName) ''.xlsx''"
    by (auto simp: Ext_xlsx_iff)
  from sent handleUpload_calls [OF assms(3), of env]
  show "snd (handleUpload env r)
      = [Upload (BlobIn (serviceURLOf (getenv env ''STORAGE_ACCOUNT''))
                  (getenv env ''STORAGE_CONTAINER'') (Base fileName)) file None]"
    by auto
qed

theorem handleUpload_xlsx_only_witness:
  "uploadMethod (uploadOf ''notes.txt'') = ''POST''
   \<and> parseMultipartForm (uploadOf ''notes.txt'') = None
   \<and> formFile (uploadOf ''notes.txt'') = Inr (''notes.txt'', ''PK'')
   \<and> \<not> HasSuffix (asciiLower ''notes.txt'') ''.xlsx''
   \<and> handleUpload quietEnv (uploadOf ''notes.txt'') = (httpError onlyXlsxMessage 400, [])"
proof -
  have m: "uploadMethod (uploadOf ''notes.txt'') = ''POST''"
    and p: "parseMultipartForm (uploadOf ''notes.txt'') = None"
    and f: "formFile (uploadOf ''notes.txt'') = Inr (''notes.txt'', ''PK'')"
    by (simp_all add: uploadOf_def)
  have ns: "\<not> HasSuffix (asciiLower ''notes.txt'') ''.xlsx''"
    by code_simp
  from handleUpload_xlsx_only [OF m p f, of quietEnv]
  have "\<not> HasSuffix (asciiLower ''notes.txt'') ''.xlsx''
      \<longrightarrow> handleUpload quietEnv (uploadOf ''notes.txt'') = (httpError onlyXlsxMessage 400, [])"
    by (rule conjunct1)
  from this ns have "handleUpload quietEnv (uploadOf ''notes.txt'') = (httpError onlyXlsxMessage 400, [])"
    by (rule mp)
  with m p f ns show ?thesis by (intro conjI)
qed

text \<open>
  C9 as stated fails at the name \<open>REPORT.XLSX\<close>: it does not end in \<open>.xlsx\<close>, yet the
  file is accepted and uploaded.
\<close>

theorem handleUpload_upper_case_counterexample:
  "\<not> HasSuffix ''REPORT.XLSX'' ''.xlsx''
   \<and> statusCode (fst (handleUpload quietEnv (uploadOf ''REPORT.XLSX''))) = 200
   \<and> snd (handleUpload quietEnv (uploadOf ''REPORT.XLSX''))
       = [Upload (BlobIn ''https://set.blob.core.windows.net/'' ''set'' ''REPORT.XLSX'') ''PK'' None]"
proof (intro conjI)
  show "\<not> HasSuffix ''REPORT.XLSX'' ''.xlsx''" by code_simp
  show "statusCode (fst (handleUpload quietEnv (uploadOf ''REPORT.XLSX''))) = 200"
    by code_simp
  show "snd (handleUpload quietEnv (uploadOf ''REPORT.XLSX''))
      = [Upload (BlobIn ''https://set.blob.core.windows.net/'' ''set'' ''REPORT.XLSX'') ''PK'' None]"
    by code_simp
qed

section \<open>The tier remediator is a single pass\<close>

text \<open>
  C1, as amended. Once the credential and the service client are made, the remediator
  asks for the properties of the blob exactly once. If that fails the outcome is the
  error \<open>Error: Blob not accessible\<close>; with no tier set it is
  \<open>Skipped: No access tier set\<close>; with a tier other than \<open>Archive\<close> it is
  \<open>Skipped: Already <tier>\<close>; in these cases no tier change is requested. With the tier
  \<open>Archive\<close> and a block blob client made, exactly one tier change, to \<open>Cool\<close>, is
  requested, and the outcome is \<open>Changed: Archive -> Cool\<close> when it succeeds and the
  error \<open>Error: Failed to set tier\<close> when it fails. With the tier \<open>Archive\<close> and no
  block blob client, the outcome is the error \<open>Error: Failed to create block client\<close>
  and no tier change is requested.
\<close>

theorem processBlobTier_single_pass:
  assumes "newCredential env = None"
    and "newServiceClient env (serviceURLOf account) = None"
    and "b = BlobIn (serviceURLOf account) containerName (encodedBlobPath blobPath)"
  shows "(\<forall>err. blobGetProperties env b = Inl err \<longrightarrow>
            processBlobTier env account containerName blobPath
              = ((''Error: Blob not accessible'', Some err), [GetProperties b]))
       \<and> (blobGetProperties env b = Inr None \<longrightarrow>
            processBlobTier env account containerName blobPath
              = ((''Skipped: No access tier set'', None), [GetProperties b]))
       \<and> (\<forall>tier. blobGetProperties env b = Inr (Some tier) \<and> tier \<noteq> ''Archive'' \<longrightarrow>
            processBlobTier env account containerName blobPath
              = ((''Skipped: Already '' @ tier, None), [GetProperties b]))
       \<and> (blobGetProperties env b = Inr (Some ''Archive'') \<and> newBlockBlobClient env b = None
            \<and> blobSetTier env b ''Cool'' = None \<longrightarrow>
            processBlobTier env account containerName blobPath
              = ((changedStatus, None), [GetProperties b, SetTier b ''Cool'']))
       \<and> (\<forall>err. blobGetProperties env b = Inr (Some ''Archive'')
              \<and> newBlockBlobClient env b = None \<and> blobSetTier env b ''Cool'' = Some err \<longrightarrow>
            processBlobTier env account containerName blobPath
              = ((''Error: Failed to set tier'', Some err),
                 [GetProperties b, SetTier b ''Cool'']))
       \<and> (\<forall>err. blobGetProperties env b = Inr (Some ''Archive'')
              \<and> newBlockBlobClient env b = Some err \<longrightarrow>
            processBlobTier env account containerName blobPath
              = ((''Error: Failed to create block client'', Some err), [GetProperties b]))
       \<and> tierChanges (snd (processBlobTier env account containerName blobPath))
           = (if blobGetProperties env b = Inr (Some ''Archive'') \<and> newBlockBlobClient env b = None
              then [SetTier b ''Cool''] else [])"
  using assms
  by (simp add: processBlobTier_def tierChanges_def Let_def
      split: option.splits sum.splits)

theorem processBlobTier_single_pass_witness:
  "newCredential archiveEnv = None
   \<and> newServiceClient archiveEnv (serviceURLOf ''acct'') = None
   \<and> blobA = BlobIn (serviceURLOf ''acct'') ''cont'' (encodedBlobPath ''a.txt'')
   \<and> blobGetProperties archiveEnv blobA = Inr (Some ''Archive'')
   \<and> newBlockBlobClient archiveEnv blobA = None
   \<and> blobSetTier archiveEnv blobA ''Cool'' = None
   \<and> processBlobTier archiveEnv ''acct'' ''cont'' ''a.txt''
       = ((changedStatus, None), [GetProperties blobA, SetTier blobA ''Cool''])
   \<and> tierChanges (snd (processBlobTier archiveEnv ''acct'' ''cont'' ''a.txt''))
       = [SetTier blobA ''Cool'']"
proof -
  have c: "newCredential archiveEnv = None"
    and s: "newServiceClient archiveEnv (serviceURLOf ''acct'') = None"
    and g: "blobGetProperties archiveEnv blobA = Inr (Some ''Archive'')"
    and n: "newBlockBlobClient archiveEnv blobA = None"
    and t: "blobSetTier archiveEnv blobA ''Cool'' = None"
    by (simp_all add: archiveEnv_def quietEnv_def)
  have b: "blobA = BlobIn (serviceURLOf ''acct'') ''cont'' (encodedBlobPath ''a.txt'')"
    by code_simp
  note inst = processBlobTier_single_pass [OF c s b]
  from inst g n t have r: "processBlobTier archiveEnv ''acct'' ''cont'' ''a.txt''
      = ((changedStatus, None), [GetProperties blobA, SetTier blobA ''Cool''])"
    by blast
  from inst g n have k: "tierChanges (snd (processBlobTier archiveEnv ''acct'' ''cont'' ''a.txt''))
      = [SetTier blobA ''Cool'']"
    by presburger
  from c s b g n t r k show ?thesis by (intro conjI)
qed

text \<open>
  Without a credential or a service client the remediator asks the store nothing and
  returns the error.
\<close>

lemma processBlobTier_without_client:
  "newCredential env = Some err \<Longrightarrow>
     processBlobTier env account containerName blobPath
       = ((''Error: Failed to get credential'', Some err), [])"
  "newCredential env = None \<Longrightarrow> newServiceClient env (serviceURLOf account) = Some err \<Longrightarrow>
     processBlobTier env account containerName blobPath
       = ((''Error: Failed to create service client'', Some err), [])"
  by (simp_all add: processBlobTier_def)

text \<open>
  C1 as stated fails where the tier is \<open>Archive\<close> and the block blob client cannot be
  made: no tier change is requested, and the outcome is neither \<open>Changed\<close> nor the
  failure to set the tier.
\<close>

theorem processBlobTier_no_block_client_counterexample:
  "blobGetProperties noBlockClientEnv blobA = Inr (Some ''Archive'')
   \<and> processBlobTier noBlockClientEnv ''acct'' ''cont'' ''a.txt''
       = ((''Error: Failed to create block client'', Some ''no client''), [GetProperties blobA])
   \<and> tierChanges (snd (processBlobTier noBlockClientEnv ''acct'' ''cont'' ''a.txt'')) = []"
proof (intro conjI)
  show "blobGetProperties noBlockClientEnv blobA = Inr (Some ''Archive'')"
    by (simp add: noBlockClientEnv_def archiveEnv_def)
  show "processBlobTier noBlockClientEnv ''acct'' ''cont'' ''a.txt''
       = ((''Error: Failed to create block client'', Some ''no client''), [GetProperties blobA])"
    by code_simp
  show "tierChanges (snd (processBlobTier noBlockClientEnv ''acct'' ''cont'' ''a.txt'')) = []"
    by code_simp
qed

section \<open>The counters\<close>



lemma map_of_putSheet_other:
  "name \<noteq> sheet \<Longrightarrow> map_of (putSheet sheet rows f) name = map_of f name"
  by (induction f) auto




































section \<open>The status column\<close>












lemma length_withStatus: "length (withStatus n v row) = max (length row) (Suc n)"
  by (simp add: withStatus_def padTo_def)













section \<open>No reference column\<close>




section \<open>The output publisher: name, container, upload\<close>

lemma extractFilenameFromURL_last:
  "urlParsePath env u = Inr path \<Longrightarrow> extractFilenameFromURL env u = Inr (last (Split path CHR ''/''))"
  using Split_not_Nil [of path "CHR ''/''"]
  by (simp add: extractFilenameFromURL_def Let_def last_conv_nth)

lemma ensureContainer_calls:
  "snd (ensureContainer env su c)
     = (if containerGetProperties env su c = None then [ContainerGetProperties su c]
        else [ContainerGetProperties su c, ContainerCreate su c])"
  by (simp add: ensureContainer_def split: option.splits)

lemma ensureContainer_ok:
  "fst (ensureContainer env su c) = None
     \<longleftrightarrow> containerGetProperties env su c = None \<or> containerCreate env su c = None"
  by (auto simp: ensureContainer_def split: option.splits)

lemma uploadToOutputContainer_creates_only_if_missing:
  "ContainerCreate su c \<in> set (snd (uploadToOutputContainer env account container u buffer))
     \<Longrightarrow> containerGetProperties env su c \<noteq> None"
  by (auto simp: uploadToOutputContainer_def ensureContainer_def Let_def
      split: option.splits sum.splits prod.splits if_splits)

lemma uploadToOutputContainer_one_upload:
  "length (uploads (snd (uploadToOutputContainer env account container u buffer))) \<le> 1"
  by (auto simp: uploadToOutputContainer_def ensureContainer_def uploads_def Let_def
      split: option.splits sum.splits prod.splits)

text \<open>
  C7, as amended. With the service client made, the container there or created, and a
  source URL that parses: the output name is the last piece of the URL's path with a
  trailing \<open>.xlsx\<close> removed if it is there (in just this spelling), followed by
  \<open>_processed.xlsx\<close>; the container is created exactly when the query for its
  properties failed; the buffer is uploaded once, under that name, with the spreadsheet
  content type; and the result is \<open>nil\<close> when the upload succeeds and the upload's
  error, wrapped, when it fails.
\<close>

theorem uploadToOutputContainer_publishes:
  assumes "newServiceClient env (serviceURLOf storageAccount) = None"
    and "containerGetProperties env (serviceURLOf storageAccount) outputContainer = None
         \<or> containerCreate env (serviceURLOf storageAccount) outputContainer = None"
    and "urlParsePath env originalBlobURL = Inr path"
    and "target = BlobIn (serviceURLOf storageAccount) outputContainer
                    (TrimSuffix (last (Split path CHR ''/'')) ''.xlsx'' @ ''_processed.xlsx'')"
  shows "uploadToOutputContainer env storageAccount outputContainer originalBlobURL excelBuffer
       = ((case blobUpload env target excelBuffer (Some spreadsheetContentType) of
             None \<Rightarrow> None
           | Some err \<Rightarrow>
               Some (''failed to upload processed file to output storage account: '' @ err)),
          (if containerGetProperties env (serviceURLOf storageAccount) outputContainer = None
           then [ContainerGetProperties (serviceURLOf storageAccount) outputContainer]
           else [ContainerGetProperties (serviceURLOf storageAccount) outputContainer,
                 ContainerCreate (serviceURLOf storageAccount) outputContainer])
          @ [Upload target excelBuffer (Some spreadsheetContentType)])
     \<and> uploads (snd (uploadToOutputContainer env storageAccount outputContainer
                        originalBlobURL excelBuffer))
         = [Upload target excelBuffer (Some spreadsheetContentType)]"
proof -
  obtain e cs where ec: "ensureContainer env (serviceURLOf storageAccount) outputContainer = (e, cs)"
    by (metis prod.exhaust)
  from ec assms(2) have e: "e = None"
    using ensureContainer_ok [of env "serviceURLOf storageAccount" outputContainer] by simp
  from ec have cs: "cs = (if containerGetProperties env (serviceURLOf storageAccount) outputContainer = None
           then [ContainerGetProperties (serviceURLOf storageAccount) outputContainer]
           else [ContainerGetProperties (serviceURLOf storageAccount) outputContainer,
                 ContainerCreate (serviceURLOf storageAccount) outputContainer])"
    using ensureContainer_calls [of env "serviceURLOf storageAccount" outputContainer] by simp
  have u: "uploads cs = []"
    unfolding cs by (simp add: uploads_def)
  have r: "uploadToOutputContainer env storageAccount outputContainer originalBlobURL excelBuffer
       = ((case blobUpload env target excelBuffer (Some spreadsheetContentType) of
             None \<Rightarrow> None
           | Some err \<Rightarrow>
               Some (''failed to upload processed file to output storage account: '' @ err)),
          cs @ [Upload target excelBuffer (Some spreadsheetContentType)])"
    using assms(1,4) ec e extractFilenameFromURL_last [OF assms(3)]
    by (simp add: uploadToOutputContainer_def Let_def split: option.splits)
  have "uploads (cs @ [Upload target excelBuffer (Some spreadsheetContentType)])
      = [Upload target excelBuffer (Some spreadsheetContentType)]"
    using u by (simp add: uploads_def)
  with r show ?thesis unfolding cs by simp
qed


theorem uploadToOutputContainer_publishes_witness:
  "newServiceClient pipelineEnv (serviceURLOf ''out'') = None
   \<and> containerGetProperties pipelineEnv (serviceURLOf ''out'') ''processed'' = None
   \<and> urlParsePath pipelineEnv (hostOfAcct @ ''/in/a.xlsx'') = Inr ''/in/a.xlsx''
   \<and> TrimSuffix (last (Split ''/in/a.xlsx'' CHR ''/'')) ''.xlsx'' @ ''_processed.xlsx''
       = ''a_processed.xlsx''
   \<and> uploadToOutputContainer pipelineEnv ''out'' ''processed'' (hostOfAcct @ ''/in/a.xlsx'') ''PK''
       = (None,
          [ContainerGetProperties (serviceURLOf ''out'') ''processed'',
           Upload (BlobIn (serviceURLOf ''out'') ''processed'' ''a_processed.xlsx'') ''PK''
             (Some spreadsheetContentType)])"
proof -
  have s: "newServiceClient pipelineEnv (serviceURLOf ''out'') = None"
    by (simp add: pipelineEnv_def archiveEnv_def quietEnv_def)
  have g: "containerGetProperties pipelineEnv (serviceURLOf ''out'') ''processed'' = None"
    by (simp add: pipelineEnv_def archiveEnv_def quietEnv_def)
  have p: "urlParsePath pipelineEnv (hostOfAcct @ ''/in/a.xlsx'') = Inr ''/in/a.xlsx''"
    by code_simp
  have n: "TrimSuffix (last (Split ''/in/a.xlsx'' CHR ''/'')) ''.xlsx'' @ ''_processed.xlsx''
       = ''a_processed.xlsx''"
    by code_simp
  have u: "blobUpload pipelineEnv (BlobIn (serviceURLOf ''out'') ''processed'' ''a_processed.xlsx'')
      ''PK'' (Some spreadsheetContentType) = None"
    by (simp add: pipelineEnv_def archiveEnv_def quietEnv_def)
  have t: "BlobIn (serviceURLOf ''out'') ''processed'' ''a_processed.xlsx''
      = BlobIn (serviceURLOf ''out'') ''processed''
          (TrimSuffix (last (Split ''/in/a.xlsx'' CHR ''/'')) ''.xlsx'' @ ''_processed.xlsx'')"
    unfolding n ..
  note inst = uploadToOutputContainer_publishes [OF s disjI1 [OF g] p t, of "''PK''",
      THEN conjunct1, unfolded u g]
  from inst have r: "uploadToOutputContainer pipelineEnv ''out'' ''processed''
        (hostOfAcct @ ''/in/a.xlsx'') ''PK''
       = (None,
          [ContainerGetProperties (serviceURLOf ''out'') ''processed'',
           Upload (BlobIn (serviceURLOf ''out'') ''processed'' ''a_processed.xlsx'') ''PK''
             (Some spreadsheetContentType)])"
    by simp
  from s g p n r show ?thesis by (intro conjI)
qed

text \<open>
  C7 as stated fails at a source named \<open>REPORT.XLSX\<close> (a name the uploader accepts):
  its extension is not removed, and the output is named \<open>REPORT.XLSX_processed.xlsx\<close>.
\<close>

theorem uploadToOutputContainer_keeps_extension_counterexample:
  "extractFilenameFromURL pipelineEnv (hostOfAcct @ ''/in/REPORT.XLSX'') = Inr ''REPORT.XLSX''
   \<and> uploadToOutputContainer pipelineEnv ''out'' ''processed''
         (hostOfAcct @ ''/in/REPORT.XLSX'') ''PK''
       = (None,
          [ContainerGetProperties ''https://out.blob.core.windows.net/'' ''processed'',
           Upload (BlobIn ''https://out.blob.core.windows.net/'' ''processed''
                     ''REPORT.XLSX_processed.xlsx'')
             ''PK'' (Some spreadsheetContentType)])"
proof (intro conjI)
  show "extractFilenameFromURL pipelineEnv (hostOfAcct @ ''/in/REPORT.XLSX'') = Inr ''REPORT.XLSX''"
    by code_simp
  show "uploadToOutputContainer pipelineEnv ''out'' ''processed''
         (hostOfAcct @ ''/in/REPORT.XLSX'') ''PK''
       = (None,
          [ContainerGetProperties ''https://out.blob.core.windows.net/'' ''processed'',
           Upload (BlobIn ''https://out.blob.core.windows.net/'' ''processed''
                     ''REPORT.XLSX_processed.xlsx'')
             ''PK'' (Some spreadsheetContentType)])"
    by code_simp
qed

section \<open>The webhook gateway: handshake and batches\<close>






lemma validationHandshake_answers:
  assumes "unmarshalValidation env payload = Inr (v # vs)"
    and "validationEventType v = validationEventName"
  shows "validationHandshake env payload
       = Some \<lparr>statusCode = 200, contentType = Some ''application/json'',
                body = ValidationResponse (validationCode v)\<rparr>"
  using assms by (simp add: validationHandshake_def)

text \<open>
  C4. A \<open>POST\<close> whose body decodes as a list of handshake envelopes, the first of
  which carries the validation event type, is answered with status 200 and the
  validation response that holds the code of that first envelope. This holds whatever
  \<open>process\<close> would do with an event and however the body decodes as events: no event
  is dispatched and nothing is sent to the store. The notification tracker answers the
  same and leaves its latest file as it is.
\<close>

theorem validation_handshake:
  assumes "requestMethod r = ''POST''" and "readBody r = Inr payload"
    and "unmarshalValidation env payload = Inr (v # vs)"
    and "validationEventType v = validationEventName"
  shows "handleProcessWith process env r
       = (\<lparr>statusCode = 200, contentType = Some ''application/json'',
           body = ValidationResponse (validationCode v)\<rparr>, [])
     \<and> handleProcess env r
       = (\<lparr>statusCode = 200, contentType = Some ''application/json'',
           body = ValidationResponse (validationCode v)\<rparr>, [])
     \<and> handleProcessedNotification env now r latest
       = (\<lparr>statusCode = 200, contentType = Some ''application/json'',
           body = ValidationResponse (validationCode v)\<rparr>, latest)"
  using assms(1,2) validationHandshake_answers [OF assms(3,4)]
  by (simp add: handleProcessWith_def handleProcess_def handleProcessedNotification_def)

theorem validation_handshake_witness:
  "requestMethod (postOf ''[{}]'') = ''POST''
   \<and> readBody (postOf ''[{}]'') = Inr ''[{}]''
   \<and> unmarshalValidation handshakeEnv ''[{}]'' = Inr [handshake]
   \<and> validationEventType handshake = validationEventName
   \<and> validationCode handshake = ''abc123''
   \<and> handleProcess handshakeEnv (postOf ''[{}]'')
       = (\<lparr>statusCode = 200, contentType = Some ''application/json'',
           body = ValidationResponse ''abc123''\<rparr>, [])"
proof -
  have m: "requestMethod (postOf ''[{}]'') = ''POST''"
    and b: "readBody (postOf ''[{}]'') = Inr ''[{}]''"
    by (simp_all add: postOf_def)
  have u: "unmarshalValidation handshakeEnv ''[{}]'' = Inr [handshake]"
    by (simp add: handshakeEnv_def)
  have t: "validationEventType handshake = validationEventName"
    and c: "validationCode handshake = ''abc123''"
    by (simp_all add: handshake_def)
  note inst = validation_handshake [OF m b u t, THEN conjunct2, THEN conjunct1, unfolded c]
  from m b u t c inst show ?thesis by (intro conjI)
qed


end
